theory Spec2Isabelle
  imports Complex_Main
begin

section \<open>FHIR-Lite record server (server.py): data model\<close>

text \<open>
  The server keeps no state of its own: every handler opens one PostgreSQL connection
  through \<open>get_db_connection\<close>, runs its statements in one transaction and, after a
  successful mutation, calls \<open>log_event\<close>, which opens a second connection. The
  embedding passes the world explicitly: the committed tables, the process configuration
  and the few inputs the handlers read from their environment (clocks, the next UUID,
  whether the next connection attempt succeeds).

  Strings are \<open>string\<close>; a character is a code point below 256, which covers every
  literal of the source (\<open>CHR 0xE1\<close> is a-acute, \<open>CHR 0xE9\<close> e-acute, \<open>CHR 0xF3\<close>
  o-acute, \<open>CHR 0x27\<close> the apostrophe).
\<close>

subsection \<open>Calendar dates\<close>

text \<open>A date is (year, month, day); dates compare as Python's \<open>datetime.date\<close> does.\<close>

type_synonym date = "nat \<times> nat \<times> nat"

type_synonym timestamp = nat

definition date_le :: "date \<Rightarrow> date \<Rightarrow> bool" where
  "date_le a b =
     (case a of (y1, m1, d1) \<Rightarrow> case b of (y2, m2, d2) \<Rightarrow>
        y1 < y2 \<or> (y1 = y2 \<and> (m1 < m2 \<or> (m1 = m2 \<and> d1 \<le> d2))))"

definition date_lt :: "date \<Rightarrow> date \<Rightarrow> bool" where
  "date_lt a b = (date_le a b \<and> a \<noteq> b)"

definition is_leap :: "nat \<Rightarrow> bool" where
  "is_leap y = (y mod 4 = 0 \<and> (y mod 400 = 0 \<or> y mod 100 \<noteq> 0))"

definition days_in_month :: "nat \<Rightarrow> nat \<Rightarrow> nat" where
  "days_in_month y m =
     (if m = 2 then (if is_leap y then 29 else 28)
      else if m = 4 \<or> m = 6 \<or> m = 9 \<or> m = 11 then 30 else 31)"

subsection \<open>The runtime's ISO parser\<close>

text \<open>
  \<open>datetime.fromisoformat\<close> belongs to the Python runtime, not to the repository, and
  what it reads depends on the release: every release from 3.7 on reads
  \<^verbatim>\<open>YYYY-MM-DD[*HH[:MM[:SS[.fff[fff]]]][+HH:MM[:SS[.ffffff]]]]\<close>
  (\<open>*\<close> is any single character), and the releases from 3.11 on read further ISO 8601
  spellings. The embedding therefore takes the parser as it is given: the validators
  receive it as an argument, and a request reads it from the world (its field
  \<open>fromisoformat\<close>). The handlers only ever use the date of the result, so a parser
  returns the date alone, or the message of its \<open>ValueError\<close>.

  \<open>fromisoformat_py37\<close> below is the parser of the releases 3.7 to 3.10, by the grammar
  above. It is the runtime of the sample worlds; the statements about the
  validators hold for every parser.
\<close>

definition digit_val :: "char \<Rightarrow> nat option" where
  "digit_val c = map_of (zip ''0123456789'' [0, 1, 2, 3, 4, 5, 6, 7, 8, 9]) c"

fun digits_val :: "nat \<Rightarrow> string \<Rightarrow> nat option" where
  "digits_val acc [] = Some acc"
| "digits_val acc (c # cs) =
     (case digit_val c of None \<Rightarrow> None | Some d \<Rightarrow> digits_val (10 * acc + d) cs)"

definition number :: "string \<Rightarrow> nat option" where
  "number s = (if s = [] then None else digits_val 0 s)"

definition quoted :: "string \<Rightarrow> string" where
  "quoted s = [CHR 0x27] @ s @ [CHR 0x27]"

definition invalid_isoformat :: "string \<Rightarrow> string" where
  "invalid_isoformat s = ''Invalid isoformat string: '' @ quoted s"

definition parse_isoformat_date :: "string \<Rightarrow> (nat \<times> nat \<times> nat) option" where
  "parse_isoformat_date s =
     (if length s = 10 \<and> s ! 4 = CHR ''-'' \<and> s ! 7 = CHR ''-'' then
        (case (number (take 4 s), number (take 2 (drop 5 s)), number (drop 8 s)) of
           (Some y, Some m, Some d) \<Rightarrow> Some (y, m, d)
         | _ \<Rightarrow> None)
      else None)"

text \<open>\<open>HH[:MM[:SS[.fff[fff]]]]\<close>: hour, minute and second (the fraction is checked, not kept).\<close>

definition parse_hh_mm_ss_ff :: "string \<Rightarrow> (nat \<times> nat \<times> nat) option" where
  "parse_hh_mm_ss_ff s =
     (let n = length s in
      if n = 2 then
        (case number s of Some h \<Rightarrow> Some (h, 0, 0) | None \<Rightarrow> None)
      else if n = 5 \<and> s ! 2 = CHR '':'' then
        (case (number (take 2 s), number (drop 3 s)) of
           (Some h, Some m) \<Rightarrow> Some (h, m, 0) | _ \<Rightarrow> None)
      else if (n = 8 \<or> n = 12 \<or> n = 15) \<and> s ! 2 = CHR '':'' \<and> s ! 5 = CHR '':''
              \<and> (n = 8 \<or> (s ! 8 = CHR ''.'' \<and> number (drop 9 s) \<noteq> None)) then
        (case (number (take 2 s), number (take 2 (drop 3 s)), number (take 2 (drop 6 s))) of
           (Some h, Some m, Some sec) \<Rightarrow> Some (h, m, sec) | _ \<Rightarrow> None)
      else None)"

text \<open>
  The time part: a time of day, then an optional UTC offset that starts at the first
  \<open>-\<close>, or at the first \<open>+\<close> when there is no \<open>-\<close>. The offset has 5, 8 or 15
  characters and stays strictly below 24 hours.
\<close>

definition tz_pos :: "string \<Rightarrow> nat option" where
  "tz_pos t =
     (case find (\<lambda>i. t ! i = CHR ''-'') [0..<length t] of
        Some i \<Rightarrow> Some i
      | None \<Rightarrow> find (\<lambda>i. t ! i = CHR ''+'') [0..<length t])"

definition parse_isoformat_time :: "string \<Rightarrow> (nat \<times> nat \<times> nat) option" where
  "parse_isoformat_time t =
     (case tz_pos t of
        None \<Rightarrow> parse_hh_mm_ss_ff t
      | Some i \<Rightarrow>
          (case (parse_hh_mm_ss_ff (take i t), parse_hh_mm_ss_ff (drop (Suc i) t)) of
             (Some hms, Some (h, m, sec)) \<Rightarrow>
               if (length t - Suc i = 5 \<or> length t - Suc i = 8 \<or> length t - Suc i = 15)
                  \<and> h * 3600 + m * 60 + sec < 86400
               then Some hms else None
           | _ \<Rightarrow> None))"

text \<open>
  The string is split first; a string that does not split is an invalid ISO string.
  The fields are checked afterwards, by the constructor of \<open>datetime\<close>, in the order
  year, month, day, hour, minute, second.
\<close>

definition fromisoformat_py37 :: "string \<Rightarrow> string + date" where
  "fromisoformat_py37 s =
     (case parse_isoformat_date (take 10 s) of
        None \<Rightarrow> Inl (invalid_isoformat s)
      | Some (y, m, d) \<Rightarrow>
          (case (if length s > 10 then parse_isoformat_time (drop 11 s) else Some (0, 0, 0)) of
             None \<Rightarrow> Inl (invalid_isoformat s)
           | Some (h, mi, sec) \<Rightarrow>
               if y < 1 then Inl ''year 0 is out of range''
               else if m < 1 \<or> 12 < m then Inl ''month must be in 1..12''
               else if d < 1 \<or> days_in_month y m < d then Inl ''day is out of range for month''
               else if 23 < h then Inl ''hour must be in 0..23''
               else if 59 < mi then Inl ''minute must be in 0..59''
               else if 59 < sec then Inl ''second must be in 0..59''
               else Inr (y, m, d)))"

subsection \<open>Exceptions\<close>

text \<open>
  The exceptions a handler can meet: a \<open>psycopg2.Error\<close> (by the PostgreSQL condition
  that caused it), FastAPI's \<open>HTTPException(status_code, detail)\<close>, and the
  \<open>RequestValidationError\<close> FastAPI raises when a pydantic model rejects the body, a
  list of (field, message).
\<close>

datatype pg_error =
    OperationalError
  | UniqueViolation string
  | NotNullViolation string
  | CheckViolation string
  | ForeignKeyViolation string
  | StringDataRightTruncation nat
  | InvalidDatetimeFormat string
  | UndefinedColumn string

datatype exc =
    PsycopgError pg_error
  | HTTPException nat string
  | RequestValidationError "(string \<times> string) list"

fun show_nat :: "nat \<Rightarrow> string" where
  "show_nat n =
     (if n < 10 then [''0123456789'' ! n]
      else show_nat (n div 10) @ [''0123456789'' ! (n mod 10)])"

declare show_nat.simps [simp del]

fun str_pg :: "pg_error \<Rightarrow> string" where
  "str_pg OperationalError = ''could not connect to server''"
| "str_pg (UniqueViolation c) = ''duplicate key value violates unique constraint '' @ c"
| "str_pg (NotNullViolation c) = ''null value in column '' @ c @ '' violates not-null constraint''"
| "str_pg (CheckViolation c) = ''new row violates check constraint '' @ c"
| "str_pg (ForeignKeyViolation c) = ''insert or update violates foreign key constraint '' @ c"
| "str_pg (StringDataRightTruncation n) =
     ''value too long for type character varying('' @ show_nat n @ '')''"
| "str_pg (InvalidDatetimeFormat s) = ''invalid input syntax for type date: '' @ s"
| "str_pg (UndefinedColumn c) = ''column '' @ c @ '' does not exist''"

text \<open>
  \<open>str(e)\<close>. Starlette prints an \<open>HTTPException\<close> as \<open>status_code: detail\<close>. The
  texts of \<open>str_pg\<close> stand for PostgreSQL's messages, in short; no statement below depends
  on their wording, only the sample evaluations show them.
\<close>

fun str_exc :: "exc \<Rightarrow> string" where
  "str_exc (PsycopgError e) = str_pg e"
| "str_exc (HTTPException s d) = show_nat s @ '': '' @ d"
| "str_exc (RequestValidationError errs) = concat (map (\<lambda>(f, m). f @ '': '' @ m) errs)"

text \<open>
  The status the caller sees: the exception's own for an \<open>HTTPException\<close>, 422 for a
  rejected body, 500 for anything FastAPI does not know.
\<close>

fun status_code :: "exc \<Rightarrow> nat" where
  "status_code (PsycopgError e) = 500"
| "status_code (HTTPException s d) = s"
| "status_code (RequestValidationError errs) = 422"

definition is_client_error :: "nat \<Rightarrow> bool" where
  "is_client_error s = (400 \<le> s \<and> s < 500)"

subsection \<open>Tables (initialize_db)\<close>

record patient_row =
  p_id :: string
  p_family_name :: string
  p_given_name :: string
  p_gender :: string
  p_birth_date :: date
  p_medical_summary :: "string option"
  p_created_at :: timestamp
  p_updated_at :: timestamp

record observation_row =
  o_id :: string
  o_patient_id :: string
  o_category :: string
  o_code :: string
  o_display :: string
  o_value :: real
  o_unit :: string
  o_date :: date
  o_created_at :: timestamp

record log_row =
  l_id :: nat
  l_timestamp :: timestamp
  l_action :: string
  l_resource :: string
  l_resource_id :: string

text \<open>
  The three tables in insertion order, and the sequence behind \<open>logs.id SERIAL\<close>. (The
  model rolls the sequence back with its transaction; PostgreSQL would leave a gap in
  the ids.) The last field is the server's conversion of a string to \<open>DATE\<close>: which
  spellings it reads belongs to PostgreSQL and its \<open>DateStyle\<close>, not to the repository,
  so the embedding takes the conversion as it is given. No statement changes it.
\<close>

record database =
  patients :: "patient_row list"
  observations :: "observation_row list"
  logs :: "log_row list"
  logs_id_seq :: nat
  date_in :: "string \<Rightarrow> date option"

text \<open>\<open>initialize_db\<close> creates the three tables, empty, on the server it connects to.\<close>

definition initialize_db :: "(string \<Rightarrow> date option) \<Rightarrow> database" where
  "initialize_db cast =
     \<lparr>patients = [], observations = [], logs = [], logs_id_seq = 0, date_in = cast\<rparr>"

text \<open>
  What a handler reads from outside: \<open>DATABASE_URL\<close>, the committed tables, whether the
  coming connection attempts fail (one flag per \<open>psycopg2.connect\<close>, \<open>True\<close> for a
  failure; none left means success), the database's \<open>CURRENT_TIMESTAMP\<close>, the
  process's \<open>datetime.utcnow()\<close> and \<open>date.today()\<close>, the string the next
  \<open>uuid.uuid4()\<close> returns, and the runtime's \<open>datetime.fromisoformat\<close>.
\<close>

record world =
  DATABASE_URL :: "string option"
  db :: database
  connect_faults :: "bool list"
  current_timestamp :: timestamp
  utcnow :: timestamp
  today :: date
  uuid4 :: string
  fromisoformat :: "string \<Rightarrow> string + date"

subsection \<open>SQL statements\<close>

text \<open>
  A string fits \<open>VARCHAR(n)\<close> when whatever exceeds \<open>n\<close> characters is blank; the
  excess is then cut, and any other longer string is an error.
\<close>

definition fits :: "nat \<Rightarrow> string \<Rightarrow> bool" where
  "fits n s = list_all (\<lambda>c. c = CHR '' '') (drop n s)"

definition varchar ::
  "nat \<Rightarrow> string \<Rightarrow> string option \<Rightarrow> (string \<Rightarrow> 'r) \<Rightarrow> pg_error + 'r" where
  "varchar n col v f =
     (case v of
        None \<Rightarrow> Inl (NotNullViolation col)
      | Some s \<Rightarrow> if fits n s then Inr (f (take n s)) else Inl (StringDataRightTruncation n))"

text \<open>A \<open>DATE\<close> column, under the server's conversion \<open>cast\<close>.\<close>

definition date_column ::
  "(string \<Rightarrow> date option) \<Rightarrow> string \<Rightarrow> string option \<Rightarrow> (date \<Rightarrow> 'r) \<Rightarrow> pg_error + 'r" where
  "date_column cast col v f =
     (case v of
        None \<Rightarrow> Inl (NotNullViolation col)
      | Some s \<Rightarrow> (case cast s of None \<Rightarrow> Inl (InvalidDatetimeFormat s) | Some d \<Rightarrow> Inr (f d)))"

text \<open>
  One assignment \<open>column = value\<close> on a row of \<open>patients\<close>, under the column's
  constraints: \<open>VARCHAR(n)\<close>, \<open>NOT NULL\<close>, \<open>DATE\<close> and the \<open>CHECK\<close> on gender.
  \<open>None\<close> is SQL's \<open>NULL\<close>.
\<close>

definition assign_patient_column ::
  "(string \<Rightarrow> date option) \<Rightarrow> string \<Rightarrow> string option \<Rightarrow> patient_row
     \<Rightarrow> pg_error + patient_row" where
  "assign_patient_column cast col v r =
     (if col = ''id'' then varchar 50 col v (\<lambda>s. r\<lparr>p_id := s\<rparr>)
      else if col = ''family_name'' then varchar 100 col v (\<lambda>s. r\<lparr>p_family_name := s\<rparr>)
      else if col = ''given_name'' then varchar 100 col v (\<lambda>s. r\<lparr>p_given_name := s\<rparr>)
      else if col = ''gender'' then
        (case varchar 10 col v (\<lambda>s. r\<lparr>p_gender := s\<rparr>) of
           Inl e \<Rightarrow> Inl e
         | Inr r' \<Rightarrow>
             if p_gender r' = ''male'' \<or> p_gender r' = ''female'' \<or> p_gender r' = ''other''
               then Inr r' else Inl (CheckViolation ''patients_gender_check''))
      else if col = ''birth_date'' then date_column cast col v (\<lambda>d. r\<lparr>p_birth_date := d\<rparr>)
      else if col = ''medical_summary'' then Inr (r\<lparr>p_medical_summary := v\<rparr>)
      else Inl (UndefinedColumn col))"

fun assign_all ::
  "(string \<Rightarrow> date option) \<Rightarrow> (string \<times> string option) list \<Rightarrow> patient_row
     \<Rightarrow> pg_error + patient_row" where
  "assign_all cast [] r = Inr r"
| "assign_all cast ((col, v) # sets) r =
     (case assign_patient_column cast col v r of
        Inl e \<Rightarrow> Inl e
      | Inr r' \<Rightarrow> assign_all cast sets r')"

text \<open>\<open>SELECT ... FROM patients WHERE id = %s\<close>, then \<open>fetchone()\<close>.\<close>

definition select_patient :: "database \<Rightarrow> string \<Rightarrow> patient_row option" where
  "select_patient d pid = find (\<lambda>r. p_id r = pid) (patients d)"

text \<open>
  \<open>INSERT INTO patients (id, family_name, given_name, gender, birth_date,
  medical_summary)\<close>: \<open>created_at\<close> and \<open>updated_at\<close> take their default, then the
  primary key is checked.
\<close>

definition insert_patient ::
  "timestamp \<Rightarrow> (string \<times> string option) list \<Rightarrow> database \<Rightarrow> pg_error + database" where
  "insert_patient now vals d =
     (case assign_all (date_in d) vals
             \<lparr>p_id = [], p_family_name = [], p_given_name = [], p_gender = [],
              p_birth_date = (0, 0, 0), p_medical_summary = None,
              p_created_at = now, p_updated_at = now\<rparr> of
        Inl e \<Rightarrow> Inl e
      | Inr r \<Rightarrow>
          if select_patient d (p_id r) \<noteq> None then Inl (UniqueViolation ''patients_pkey'')
          else Inr (d\<lparr>patients := patients d @ [r]\<rparr>))"

text \<open>\<open>UPDATE patients SET ..., updated_at = CURRENT_TIMESTAMP WHERE id = %s\<close>.\<close>

fun update_where_id ::
  "(patient_row \<Rightarrow> pg_error + patient_row) \<Rightarrow> string \<Rightarrow> patient_row list
     \<Rightarrow> pg_error + patient_row list" where
  "update_where_id f pid [] = Inr []"
| "update_where_id f pid (r # rs) =
     (case (if p_id r = pid then f r else Inr r) of
        Inl e \<Rightarrow> Inl e
      | Inr r' \<Rightarrow>
          (case update_where_id f pid rs of
             Inl e \<Rightarrow> Inl e
           | Inr rs' \<Rightarrow> Inr (r' # rs')))"

definition update_patients ::
  "timestamp \<Rightarrow> (string \<times> string option) list \<Rightarrow> string \<Rightarrow> database
     \<Rightarrow> pg_error + database" where
  "update_patients now sets pid d =
     (case update_where_id
             (\<lambda>r. case assign_all (date_in d) sets r of
                     Inl e \<Rightarrow> Inl e
                   | Inr r' \<Rightarrow> Inr (r'\<lparr>p_updated_at := now\<rparr>))
             pid (patients d) of
        Inl e \<Rightarrow> Inl e
      | Inr rs \<Rightarrow> Inr (d\<lparr>patients := rs\<rparr>))"

text \<open>
  \<open>DELETE FROM patients WHERE id = %s\<close>; the foreign key's \<open>ON DELETE CASCADE\<close> deletes
  the observations of the deleted rows in the same statement.
\<close>

definition delete_patients :: "string \<Rightarrow> database \<Rightarrow> database" where
  "delete_patients pid d =
     d\<lparr>patients := filter (\<lambda>r. p_id r \<noteq> pid) (patients d),
       observations := filter (\<lambda>ob. o_patient_id ob \<noteq> pid) (observations d)\<rparr>"

text \<open>
  \<open>INSERT INTO observations (id, patient_id, category, code, display, value, unit,
  date)\<close>, under the columns' constraints, the primary key and the foreign key
  \<open>patient_id REFERENCES patients(id)\<close>.
\<close>

definition sql_then :: "pg_error + 'a \<Rightarrow> ('a \<Rightarrow> pg_error + 'b) \<Rightarrow> pg_error + 'b" where
  "sql_then r f = (case r of Inl e \<Rightarrow> Inl e | Inr a \<Rightarrow> f a)"

definition insert_observation ::
  "timestamp \<Rightarrow> string \<Rightarrow> string \<Rightarrow> string \<Rightarrow> string \<Rightarrow> string \<Rightarrow> real \<Rightarrow> string
     \<Rightarrow> string \<Rightarrow> database \<Rightarrow> pg_error + database" where
  "insert_observation now oid pid category ocode display val unit odate d =
     sql_then (varchar 50 ''id'' (Some oid) (\<lambda>s. s)) (\<lambda>oid'.
     sql_then (varchar 50 ''patient_id'' (Some pid) (\<lambda>s. s)) (\<lambda>pid'.
     sql_then (varchar 50 ''category'' (Some category) (\<lambda>s. s)) (\<lambda>category'.
     sql_then (varchar 50 ''code'' (Some ocode) (\<lambda>s. s)) (\<lambda>ocode'.
     sql_then (varchar 100 ''display'' (Some display) (\<lambda>s. s)) (\<lambda>display'.
     sql_then (varchar 20 ''unit'' (Some unit) (\<lambda>s. s)) (\<lambda>unit'.
     sql_then (date_column (date_in d) ''date'' (Some odate) (\<lambda>x. x)) (\<lambda>odate'.
       if list_ex (\<lambda>ob. o_id ob = oid') (observations d)
         then Inl (UniqueViolation ''observations_pkey'')
       else if select_patient d pid' = None
         then Inl (ForeignKeyViolation ''observations_patient_id_fkey'')
       else Inr (d\<lparr>observations := observations d @
                   [\<lparr>o_id = oid', o_patient_id = pid', o_category = category',
                     o_code = ocode', o_display = display', o_value = val, o_unit = unit',
                     o_date = odate', o_created_at = now\<rparr>]\<rparr>))))))))"

text \<open>\<open>INSERT INTO logs (timestamp, action, resource, resource_id)\<close>.\<close>

definition insert_log ::
  "timestamp \<Rightarrow> string \<Rightarrow> string \<Rightarrow> string \<Rightarrow> database \<Rightarrow> pg_error + database" where
  "insert_log ts action resource rid d =
     sql_then (varchar 20 ''action'' (Some action) (\<lambda>s. s)) (\<lambda>action'.
     sql_then (varchar 50 ''resource'' (Some resource) (\<lambda>s. s)) (\<lambda>resource'.
     sql_then (varchar 50 ''resource_id'' (Some rid) (\<lambda>s. s)) (\<lambda>rid'.
       Inr (d\<lparr>logs := logs d @
                [\<lparr>l_id = Suc (logs_id_seq d), l_timestamp = ts, l_action = action',
                  l_resource = resource', l_resource_id = rid'\<rparr>],
              logs_id_seq := Suc (logs_id_seq d)\<rparr>))))"

subsection \<open>Connections and transactions (get_db_connection)\<close>

text \<open>\<open>psycopg2.connect\<close>: takes the next flag of the world; \<open>True\<close> is a success.\<close>

definition connect :: "world \<Rightarrow> bool \<times> world" where
  "connect w =
     (case connect_faults w of
        [] \<Rightarrow> (True, w)
      | f # fs \<Rightarrow> (\<not> f, w\<lparr>connect_faults := fs\<rparr>))"

text \<open>
  The context manager around every \<open>with\<close> block. The block is a function from the
  tables to an exception or to its value and the new tables. Without \<open>DATABASE_URL\<close>
  (unset or empty) it raises before connecting. When the block returns, the transaction
  commits. When the block raises, the exception is thrown into the generator at its
  \<open>yield\<close>, inside the \<open>try\<close>: a \<open>psycopg2.Error\<close> meets the first \<open>except\<close>, and
  every other exception, an \<open>HTTPException\<close> raised by the block included, meets
  \<open>except Exception\<close>; both roll back and raise \<open>HTTPException(500, ...)\<close>.
\<close>

definition get_db_connection ::
  "world \<Rightarrow> (database \<Rightarrow> exc + 'a \<times> database) \<Rightarrow> (exc + 'a) \<times> world" where
  "get_db_connection w block =
     (if DATABASE_URL w = None \<or> DATABASE_URL w = Some [] then
        (Inl (HTTPException 500 ''DATABASE_URL no configurada en variables de entorno''), w)
      else case connect w of
        (False, w1) \<Rightarrow>
          (Inl (HTTPException 500
                  (''Error de base de datos: '' @ str_exc (PsycopgError OperationalError))), w1)
      | (True, w1) \<Rightarrow>
          (case block (db w1) of
             Inr (a, d') \<Rightarrow> (Inr a, w1\<lparr>db := d'\<rparr>)
           | Inl (PsycopgError e) \<Rightarrow>
               (Inl (HTTPException 500
                       (''Error de base de datos: '' @ str_exc (PsycopgError e))), w1)
           | Inl e \<Rightarrow>
               (Inl (HTTPException 500 (''Error inesperado: '' @ str_exc e)), w1)))"

text \<open>A statement inside a block: its \<open>psycopg2.Error\<close> becomes the block's exception.\<close>

definition execute ::
  "pg_error + database \<Rightarrow> (database \<Rightarrow> exc + 'a \<times> database) \<Rightarrow> exc + 'a \<times> database" where
  "execute r k = (case r of Inl e \<Rightarrow> Inl (PsycopgError e) | Inr d \<Rightarrow> k d)"

subsection \<open>Audit log (log_event)\<close>

text \<open>
  \<open>log_event\<close> inserts one row in a transaction of its own, inside
  \<open>try ... except Exception\<close>: whatever \<open>get_db_connection\<close> raises is printed and
  dropped, so the function always returns.
\<close>

definition log_event :: "world \<Rightarrow> string \<Rightarrow> string \<Rightarrow> string \<Rightarrow> world" where
  "log_event w action resource resource_id =
     (case get_db_connection w
             (\<lambda>d. execute (insert_log (utcnow w) action resource resource_id d)
                     (\<lambda>d'. Inr ((), d'))) of
        (Inl e, w') \<Rightarrow> w'
      | (Inr u, w') \<Rightarrow> w')"

subsection \<open>Pydantic models\<close>

record Patient =
  pt_id :: string
  pt_family_name :: string
  pt_given_name :: string
  pt_gender :: string
  pt_birthDate :: string
  pt_medical_summary :: string

text \<open>
  A field of \<open>PatientUpdate\<close> is \<open>None\<close> when the body does not name it (unset),
  \<open>Some None\<close> when the body sets it to \<open>null\<close>, \<open>Some (Some s)\<close> for a string.
\<close>

record PatientUpdate =
  pu_family_name :: "string option option"
  pu_given_name :: "string option option"
  pu_gender :: "string option option"
  pu_birthDate :: "string option option"
  pu_medical_summary :: "string option option"

record Observation =
  ob_patient_id :: string
  ob_category :: string
  ob_code :: string
  ob_display :: string
  ob_value :: real
  ob_unit :: string
  ob_date :: string

definition gender_message :: string where
  "gender_message =
     ''G'' @ [CHR 0xE9] @ ''nero debe ser '' @ quoted ''male'' @ '', '' @ quoted ''female''
       @ '' u '' @ quoted ''other''"

definition Patient_validate_gender :: "string \<Rightarrow> string + string" where
  "Patient_validate_gender v =
     (if \<not> List.member [''male'', ''female'', ''other''] v then Inl gender_message else Inr v)"

text \<open>
  \<open>Patient.validate_birthdate\<close>, with the runtime's parser \<open>parse\<close> and the day
  \<open>date.today()\<close> returns. The two range errors are raised inside the \<open>try\<close>, so the
  \<open>except ValueError\<close> catches them like the parser's and raises each again behind
  the same prefix.
\<close>

definition Patient_validate_birthdate ::
  "(string \<Rightarrow> string + date) \<Rightarrow> date \<Rightarrow> string \<Rightarrow> string + string" where
  "Patient_validate_birthdate parse tday v =
     (case (case parse v of
              Inl m \<Rightarrow> Inl m
            | Inr birth \<Rightarrow>
                if date_lt tday birth then Inl ''Fecha de nacimiento no puede ser futura''
                else if date_lt birth (1900, 1, 1)
                  then Inl (''Fecha de nacimiento inv'' @ [CHR 0xE1] @ ''lida'')
                else Inr ()) of
        Inl m \<Rightarrow> Inl (''Fecha inv'' @ [CHR 0xE1] @ ''lida: '' @ m)
      | Inr u \<Rightarrow> Inr v)"

text \<open>\<open>PatientUpdate.validate_gender\<close>: \<open>if v and v not in [...]\<close>; \<open>None\<close> and the
  empty string are falsy. \<open>PatientUpdate\<close> has no other validator.\<close>

definition PatientUpdate_validate_gender :: "string option \<Rightarrow> string + string option" where
  "PatientUpdate_validate_gender v =
     (case v of
        None \<Rightarrow> Inr v
      | Some s \<Rightarrow>
          if s \<noteq> [] \<and> \<not> List.member [''male'', ''female'', ''other''] s
            then Inl gender_message else Inr v)"

definition Observation_validate_date ::
  "(string \<Rightarrow> string + date) \<Rightarrow> string \<Rightarrow> string + string" where
  "Observation_validate_date parse v =
     (case parse v of
        Inl m \<Rightarrow> Inl (''Formato de fecha inv'' @ [CHR 0xE1] @ ''lido (use YYYY-MM-DD)'')
      | Inr d \<Rightarrow> Inr v)"

text \<open>
  A model is built from a body by running the validators of its fields; the errors of
  all fields are collected, each with its field's name. The body is taken as already
  of the right shape (every field of a full payload present, every value a string).
\<close>

definition field_errors :: "string \<Rightarrow> string + 'a \<Rightarrow> (string \<times> string) list" where
  "field_errors field r = (case r of Inl m \<Rightarrow> [(field, m)] | Inr v \<Rightarrow> [])"

definition Patient_errors ::
  "(string \<Rightarrow> string + date) \<Rightarrow> date \<Rightarrow> Patient \<Rightarrow> (string \<times> string) list" where
  "Patient_errors parse tday p =
     field_errors ''gender'' (Patient_validate_gender (pt_gender p))
     @ field_errors ''birthDate'' (Patient_validate_birthdate parse tday (pt_birthDate p))"

definition PatientUpdate_errors :: "PatientUpdate \<Rightarrow> (string \<times> string) list" where
  "PatientUpdate_errors u =
     (case pu_gender u of
        None \<Rightarrow> []
      | Some v \<Rightarrow> field_errors ''gender'' (PatientUpdate_validate_gender v))"

definition Observation_errors ::
  "(string \<Rightarrow> string + date) \<Rightarrow> Observation \<Rightarrow> (string \<times> string) list" where
  "Observation_errors parse ob =
     field_errors ''date'' (Observation_validate_date parse (ob_date ob))"

text \<open>\<open>updates.dict(exclude_unset=True).items()\<close>: the fields the body names, in the
  order the model declares them.\<close>

definition item :: "string \<Rightarrow> 'v option \<Rightarrow> (string \<times> 'v) list" where
  "item k f = (case f of None \<Rightarrow> [] | Some v \<Rightarrow> [(k, v)])"

definition dict_exclude_unset :: "PatientUpdate \<Rightarrow> (string \<times> string option) list" where
  "dict_exclude_unset u =
     item ''family_name'' (pu_family_name u) @ item ''given_name'' (pu_given_name u)
     @ item ''gender'' (pu_gender u) @ item ''birthDate'' (pu_birthDate u)
     @ item ''medical_summary'' (pu_medical_summary u)"

subsection \<open>LIKE, LOWER and ORDER BY\<close>

text \<open>
  PostgreSQL's \<open>LIKE\<close>: in the pattern \<open>%\<close> stands for any run of characters, \<open>_\<close>
  for any one character, and a backslash makes the character after it stand for itself.
  (A pattern that ends in a lone backslash is an error in PostgreSQL; the patterns of
  this program end in \<open>%\<close>, and the model lets such a pattern match nothing.)
\<close>

fun like :: "string \<Rightarrow> string \<Rightarrow> bool" where
  "like [] t = (t = [])"
| "like (c # p) t =
     (if c = CHR ''%'' then
        (like p t \<or> (case t of [] \<Rightarrow> False | x # t' \<Rightarrow> like (c # p) t'))
      else if c = CHR ''_'' then
        (case t of [] \<Rightarrow> False | x # t' \<Rightarrow> like p t')
      else if c = CHR 0x5C then
        (case p of
           [] \<Rightarrow> False
         | e # p' \<Rightarrow> (case t of [] \<Rightarrow> False | x # t' \<Rightarrow> x = e \<and> like p' t'))
      else (case t of [] \<Rightarrow> False | x # t' \<Rightarrow> x = c \<and> like p t'))"

text \<open>
  \<open>str.lower()\<close> and SQL's \<open>LOWER\<close>, on the code points below 256: the letters A to Z
  and the capital letters of Latin-1 (\<open>0xC0\<close> to \<open>0xDE\<close> without the multiplication
  sign \<open>0xD7\<close>), each 32 below its small letter.
\<close>

definition capital_letters :: string where
  "capital_letters =
     ''ABCDEFGHIJKLMNOPQRSTUVWXYZ''
     @ [CHR 0xC0, CHR 0xC1, CHR 0xC2, CHR 0xC3, CHR 0xC4, CHR 0xC5, CHR 0xC6,
        CHR 0xC7, CHR 0xC8, CHR 0xC9, CHR 0xCA, CHR 0xCB, CHR 0xCC, CHR 0xCD,
        CHR 0xCE, CHR 0xCF, CHR 0xD0, CHR 0xD1, CHR 0xD2, CHR 0xD3, CHR 0xD4,
        CHR 0xD5, CHR 0xD6, CHR 0xD8, CHR 0xD9, CHR 0xDA, CHR 0xDB, CHR 0xDC,
        CHR 0xDD, CHR 0xDE]"

definition small_letters :: string where
  "small_letters =
     ''abcdefghijklmnopqrstuvwxyz''
     @ [CHR 0xE0, CHR 0xE1, CHR 0xE2, CHR 0xE3, CHR 0xE4, CHR 0xE5, CHR 0xE6,
        CHR 0xE7, CHR 0xE8, CHR 0xE9, CHR 0xEA, CHR 0xEB, CHR 0xEC, CHR 0xED,
        CHR 0xEE, CHR 0xEF, CHR 0xF0, CHR 0xF1, CHR 0xF2, CHR 0xF3, CHR 0xF4,
        CHR 0xF5, CHR 0xF6, CHR 0xF8, CHR 0xF9, CHR 0xFA, CHR 0xFB, CHR 0xFC,
        CHR 0xFD, CHR 0xFE]"

definition lower_char :: "char \<Rightarrow> char" where
  "lower_char c =
     (case map_of (zip capital_letters small_letters) c of
        None \<Rightarrow> c
      | Some l \<Rightarrow> l)"

definition lower :: "string \<Rightarrow> string" where
  "lower s = map lower_char s"

text \<open>\<open>ORDER BY\<close>: a stable sort; strings compare by code point.\<close>

fun str_le :: "string \<Rightarrow> string \<Rightarrow> bool" where
  "str_le [] t = True"
| "str_le (a # s) [] = False"
| "str_le (a # s) (b # t) = ((of_char a :: nat) < of_char b \<or> (a = b \<and> str_le s t))"

fun insert_by :: "('a \<Rightarrow> 'a \<Rightarrow> bool) \<Rightarrow> 'a \<Rightarrow> 'a list \<Rightarrow> 'a list" where
  "insert_by le x [] = [x]"
| "insert_by le x (y # ys) = (if le x y then x # y # ys else y # insert_by le x ys)"

definition order_by :: "('a \<Rightarrow> 'a \<Rightarrow> bool) \<Rightarrow> 'a list \<Rightarrow> 'a list" where
  "order_by le xs = foldr (insert_by le) xs []"

definition by_family_given :: "patient_row \<Rightarrow> patient_row \<Rightarrow> bool" where
  "by_family_given a b =
     (if p_family_name a = p_family_name b then str_le (p_given_name a) (p_given_name b)
      else str_le (p_family_name a) (p_family_name b))"

definition by_date_created_desc :: "observation_row \<Rightarrow> observation_row \<Rightarrow> bool" where
  "by_date_created_desc a b =
     (if o_date a = o_date b then o_created_at b \<le> o_created_at a
      else date_le (o_date b) (o_date a))"

subsection \<open>Patient endpoints\<close>

text \<open>The columns \<open>search_patients\<close> selects (\<open>birth_date as "birthDate"\<close>).\<close>

record patient_view =
  v_id :: string
  v_family_name :: string
  v_given_name :: string
  v_gender :: string
  v_birthDate :: date
  v_medical_summary :: "string option"

definition view :: "patient_row \<Rightarrow> patient_view" where
  "view r =
     \<lparr>v_id = p_id r, v_family_name = p_family_name r, v_given_name = p_given_name r,
      v_gender = p_gender r, v_birthDate = p_birth_date r,
      v_medical_summary = p_medical_summary r\<rparr>"

definition search_rows :: "string \<Rightarrow> patient_row list \<Rightarrow> patient_row list" where
  "search_rows name rows =
     order_by by_family_given
       (filter (\<lambda>r. like (''%'' @ lower name @ ''%'') (lower (p_family_name r))
                   \<or> like (''%'' @ lower name @ ''%'') (lower (p_given_name r))) rows)"

definition search_patients :: "world \<Rightarrow> string \<Rightarrow> (exc + patient_view list) \<times> world" where
  "search_patients w name =
     get_db_connection w (\<lambda>d. Inr (map view (search_rows name (patients d)), d))"

definition create_patient :: "world \<Rightarrow> Patient \<Rightarrow> (exc + string \<times> string) \<times> world" where
  "create_patient w patient =
     (case get_db_connection w
             (\<lambda>d. if select_patient d (pt_id patient) \<noteq> None then
                     Inl (HTTPException 400
                            (''El paciente '' @ quoted (pt_id patient) @ '' ya existe''))
                   else
                     execute
                       (insert_patient (current_timestamp w)
                          [(''id'', Some (pt_id patient)),
                           (''family_name'', Some (pt_family_name patient)),
                           (''given_name'', Some (pt_given_name patient)),
                           (''gender'', Some (pt_gender patient)),
                           (''birth_date'', Some (pt_birthDate patient)),
                           (''medical_summary'', Some (pt_medical_summary patient))] d)
                       (\<lambda>d'. Inr ((), d'))) of
        (Inl e, w') \<Rightarrow> (Inl e, w')
      | (Inr u, w') \<Rightarrow>
          (Inr (''Paciente creado correctamente'', pt_id patient),
           log_event w' ''CREATE'' ''Patient'' (pt_id patient)))"

definition not_found :: "string \<Rightarrow> exc" where
  "not_found patient_id =
     HTTPException 404 (''Paciente '' @ quoted patient_id @ '' no encontrado'')"

definition update_patient :: "world \<Rightarrow> string \<Rightarrow> Patient \<Rightarrow> (exc + string) \<times> world" where
  "update_patient w patient_id patient =
     (case get_db_connection w
             (\<lambda>d. if select_patient d patient_id = None then Inl (not_found patient_id)
                   else
                     execute
                       (update_patients (current_timestamp w)
                          [(''family_name'', Some (pt_family_name patient)),
                           (''given_name'', Some (pt_given_name patient)),
                           (''gender'', Some (pt_gender patient)),
                           (''birth_date'', Some (pt_birthDate patient)),
                           (''medical_summary'', Some (pt_medical_summary patient))]
                          patient_id d)
                       (\<lambda>d'. Inr ((), d'))) of
        (Inl e, w') \<Rightarrow> (Inl e, w')
      | (Inr u, w') \<Rightarrow>
          (Inr ''Paciente actualizado completamente'',
           log_event w' ''PUT'' ''Patient'' patient_id))"

text \<open>
  \<open>patch_patient\<close> builds its \<open>UPDATE\<close> from the fields the body names: the loop maps
  each key to its column (\<open>birthDate\<close> to \<open>birth_date\<close>) and keeps its value.
\<close>

definition update_fields :: "PatientUpdate \<Rightarrow> (string \<times> string option) list" where
  "update_fields updates =
     map (\<lambda>(key, val). (if key = ''birthDate'' then ''birth_date'' else key, val))
       (dict_exclude_unset updates)"

definition patch_patient :: "world \<Rightarrow> string \<Rightarrow> PatientUpdate \<Rightarrow> (exc + string) \<times> world" where
  "patch_patient w patient_id updates =
     (case get_db_connection w
             (\<lambda>d. if select_patient d patient_id = None then Inl (not_found patient_id)
                   else if update_fields updates = [] then
                     Inl (HTTPException 400 ''No se proporcionaron campos para actualizar'')
                   else
                     execute
                       (update_patients (current_timestamp w) (update_fields updates)
                          patient_id d)
                       (\<lambda>d'. Inr ((), d'))) of
        (Inl e, w') \<Rightarrow> (Inl e, w')
      | (Inr u, w') \<Rightarrow>
          (Inr ''Paciente actualizado parcialmente'',
           log_event w' ''PATCH'' ''Patient'' patient_id))"

definition delete_patient :: "world \<Rightarrow> string \<Rightarrow> (exc + string \<times> nat) \<times> world" where
  "delete_patient w patient_id =
     (case get_db_connection w
             (\<lambda>d. if select_patient d patient_id = None then Inl (not_found patient_id)
                   else
                     Inr (length (filter (\<lambda>ob. o_patient_id ob = patient_id) (observations d)),
                          delete_patients patient_id d)) of
        (Inl e, w') \<Rightarrow> (Inl e, w')
      | (Inr obs_count, w') \<Rightarrow>
          (Inr (''Paciente '' @ quoted patient_id @ '' eliminado'', obs_count),
           log_event w' ''DELETE'' ''Patient'' patient_id))"

subsection \<open>Observation endpoints\<close>

definition get_observations ::
  "world \<Rightarrow> string \<Rightarrow> (exc + observation_row list) \<times> world" where
  "get_observations w patient_id =
     get_db_connection w
       (\<lambda>d. if select_patient d patient_id = None then Inl (not_found patient_id)
             else
               Inr (order_by by_date_created_desc
                      (filter (\<lambda>ob. o_patient_id ob = patient_id) (observations d)), d))"

definition create_observation ::
  "world \<Rightarrow> Observation \<Rightarrow> (exc + string \<times> string) \<times> world" where
  "create_observation w observation =
     (case get_db_connection w
             (\<lambda>d. if select_patient d (ob_patient_id observation) = None then
                     Inl (HTTPException 404
                            (''Paciente '' @ quoted (ob_patient_id observation) @ '' no existe''))
                   else
                     execute
                       (insert_observation (current_timestamp w) (uuid4 w)
                          (ob_patient_id observation) (ob_category observation)
                          (ob_code observation) (ob_display observation)
                          (ob_value observation) (ob_unit observation)
                          (ob_date observation) d)
                       (\<lambda>d'. Inr ((), d'))) of
        (Inl e, w') \<Rightarrow> (Inl e, w')
      | (Inr u, w') \<Rightarrow>
          (Inr (''Observaci'' @ [CHR 0xF3] @ ''n registrada correctamente'', uuid4 w),
           log_event w' ''CREATE'' ''Observation'' (uuid4 w)))"

subsection \<open>Requests\<close>

text \<open>
  FastAPI builds the handler's model from the body first and calls the handler only
  when the model accepts it; otherwise the request ends with status 422 and the handler
  never runs.
  (The shared-secret check \<open>verify_api_key\<close> comes before both; the requests of this
  model are the ones that pass it.)
\<close>

definition POST_Patient :: "world \<Rightarrow> Patient \<Rightarrow> (exc + string \<times> string) \<times> world" where
  "POST_Patient w body =
     (case Patient_errors (fromisoformat w) (today w) body of
        [] \<Rightarrow> create_patient w body
      | e # es \<Rightarrow> (Inl (RequestValidationError (e # es)), w))"

definition PUT_Patient :: "world \<Rightarrow> string \<Rightarrow> Patient \<Rightarrow> (exc + string) \<times> world" where
  "PUT_Patient w patient_id body =
     (case Patient_errors (fromisoformat w) (today w) body of
        [] \<Rightarrow> update_patient w patient_id body
      | e # es \<Rightarrow> (Inl (RequestValidationError (e # es)), w))"

definition PATCH_Patient :: "world \<Rightarrow> string \<Rightarrow> PatientUpdate \<Rightarrow> (exc + string) \<times> world" where
  "PATCH_Patient w patient_id body =
     (case PatientUpdate_errors body of
        [] \<Rightarrow> patch_patient w patient_id body
      | e # es \<Rightarrow> (Inl (RequestValidationError (e # es)), w))"

definition POST_Observation ::
  "world \<Rightarrow> Observation \<Rightarrow> (exc + string \<times> string) \<times> world" where
  "POST_Observation w body =
     (case Observation_errors (fromisoformat w) body of
        [] \<Rightarrow> create_observation w body
      | e # es \<Rightarrow> (Inl (RequestValidationError (e # es)), w))"

section \<open>Properties\<close>

subsection \<open>Vocabulary of the statements\<close>

text \<open>The status of the response: 200 for a returned value, the exception's otherwise.\<close>

definition response_status :: "exc + 'a \<Rightarrow> nat" where
  "response_status r = (case r of Inl e \<Rightarrow> status_code e | Inr a \<Rightarrow> 200)"

text \<open>
  The database is configured and the next connection attempt succeeds; and the one after
  it (the connection \<open>log_event\<close> opens once the handler's transaction is over) does too.
\<close>

definition db_reachable :: "world \<Rightarrow> bool" where
  "db_reachable w =
     (DATABASE_URL w \<noteq> None \<and> DATABASE_URL w \<noteq> Some [] \<and> fst (connect w))"

definition log_reachable :: "world \<Rightarrow> bool" where
  "log_reachable w = fst (connect (snd (connect w)))"

text \<open>The row \<open>log_event\<close> appends to tables \<open>d\<close> at time \<open>ts\<close>.\<close>

definition log_entry :: "database \<Rightarrow> timestamp \<Rightarrow> string \<Rightarrow> string \<Rightarrow> string \<Rightarrow> log_row" where
  "log_entry d ts action resource rid =
     \<lparr>l_id = Suc (logs_id_seq d), l_timestamp = ts, l_action = action,
      l_resource = resource, l_resource_id = rid\<rparr>"

text \<open>No orphan: every observation's \<open>patient_id\<close> is the id of a stored patient.\<close>

definition no_orphans :: "database \<Rightarrow> bool" where
  "no_orphans d = list_all (\<lambda>ob. select_patient d (o_patient_id ob) \<noteq> None) (observations d)"

text \<open>
  The tables the server can reach: those \<open>initialize_db\<close> creates (on whatever
  PostgreSQL server), and those any handler leaves behind, whatever its arguments and
  whatever the rest of the world is.
\<close>

inductive reachable :: "database \<Rightarrow> bool" where
  init: "reachable (initialize_db cast)"
| search: "reachable (db w) \<Longrightarrow> reachable (db (snd (search_patients w name)))"
| create: "reachable (db w) \<Longrightarrow> reachable (db (snd (create_patient w patient)))"
| put: "reachable (db w) \<Longrightarrow> reachable (db (snd (update_patient w patient_id patient)))"
| patch: "reachable (db w) \<Longrightarrow> reachable (db (snd (patch_patient w patient_id updates)))"
| delete: "reachable (db w) \<Longrightarrow> reachable (db (snd (delete_patient w patient_id)))"
| observations: "reachable (db w) \<Longrightarrow> reachable (db (snd (get_observations w patient_id)))"
| observe: "reachable (db w) \<Longrightarrow> reachable (db (snd (create_observation w observation)))"

text \<open>
  The specification's words for an ISO calendar date: \<open>YYYY-MM-DD\<close>, that is four
  digits, a hyphen, two digits, a hyphen and two digits, nothing before or after, where
  the month is 1 to 12 and the day is one the month has in that year. The definition
  stands on its own: it uses no parser.
\<close>

definition is_digit :: "char \<Rightarrow> bool" where
  "is_digit c = List.member ''0123456789'' c"

definition decimal :: "string \<Rightarrow> nat" where
  "decimal s = foldl (\<lambda>n c. 10 * n + (case digit_val c of None \<Rightarrow> 0 | Some k \<Rightarrow> k)) 0 s"

definition iso_calendar_date :: "string \<Rightarrow> date option" where
  "iso_calendar_date s =
     (if length s = 10
         \<and> list_all is_digit (take 4 s) \<and> s ! 4 = CHR ''-''
         \<and> list_all is_digit (take 2 (drop 5 s)) \<and> s ! 7 = CHR ''-''
         \<and> list_all is_digit (drop 8 s)
         \<and> 1 \<le> decimal (take 2 (drop 5 s)) \<and> decimal (take 2 (drop 5 s)) \<le> 12
         \<and> 1 \<le> decimal (drop 8 s)
         \<and> decimal (drop 8 s) \<le> days_in_month (decimal (take 4 s)) (decimal (take 2 (drop 5 s)))
      then Some (decimal (take 4 s), decimal (take 2 (drop 5 s)), decimal (drop 8 s))
      else None)"

text \<open>
  What every release of the runtime does: its parser reads an ISO calendar date (of a
  year from 1 on; \<open>date\<close> has no year 0) as that date.
\<close>

definition reads_calendar_dates :: "(string \<Rightarrow> string + date) \<Rightarrow> bool" where
  "reads_calendar_dates parse =
     (\<forall>s. case iso_calendar_date s of
             None \<Rightarrow> True
           | Some d \<Rightarrow> if fst d < 1 then True else parse s = Inr d)"

text \<open>
  Every value a partial payload names can be stored in its column: the names are not
  \<open>null\<close> and fit \<open>VARCHAR(100)\<close>, the gender is one of the three the \<open>CHECK\<close> allows,
  the birth date is a string the server reads as a date. (\<open>medical_summary\<close> takes any
  value.)
\<close>

definition storable :: "database \<Rightarrow> PatientUpdate \<Rightarrow> bool" where
  "storable d u =
     ((case pu_family_name u of
         None \<Rightarrow> True
       | Some v \<Rightarrow> (case v of None \<Rightarrow> False | Some s \<Rightarrow> fits 100 s))
      \<and> (case pu_given_name u of
            None \<Rightarrow> True
          | Some v \<Rightarrow> (case v of None \<Rightarrow> False | Some s \<Rightarrow> fits 100 s))
      \<and> (case pu_gender u of
            None \<Rightarrow> True
          | Some v \<Rightarrow>
              (case v of
                 None \<Rightarrow> False
               | Some s \<Rightarrow> s = ''male'' \<or> s = ''female'' \<or> s = ''other''))
      \<and> (case pu_birthDate u of
            None \<Rightarrow> True
          | Some v \<Rightarrow> (case v of None \<Rightarrow> False | Some s \<Rightarrow> date_in d s \<noteq> None)))"

text \<open>The specification's words for a string that contains another as a substring.\<close>

fun contains :: "string \<Rightarrow> string \<Rightarrow> bool" where
  "contains s [] = (s = [])"
| "contains s (x # t) = (take (length s) (x # t) = s \<or> contains s t)"

text \<open>A search string with none of the characters \<open>LIKE\<close> reads as its own syntax.\<close>

definition plain :: "string \<Rightarrow> bool" where
  "plain s = list_all (\<lambda>c. c \<noteq> CHR ''%'' \<and> c \<noteq> CHR ''_'' \<and> c \<noteq> CHR 0x5C) s"

subsection \<open>Sample data\<close>

text \<open>
  The sample worlds. Their server's \<open>date_in\<close> reads the ISO calendar dates from year 1
  on, which PostgreSQL reads under every \<open>DateStyle\<close>, and no other string (the samples
  hand it one other string, \<open>13/13/2020\<close>, which no \<open>DateStyle\<close> reads). Their runtime
  is that of Python 3.7.
\<close>

definition iso_date_in :: "string \<Rightarrow> date option" where
  "iso_date_in s =
     (case iso_calendar_date s of
        None \<Rightarrow> None
      | Some d \<Rightarrow> if fst d < 1 then None else Some d)"

definition sample_world :: "database \<Rightarrow> world" where
  "sample_world d =
     \<lparr>DATABASE_URL = Some ''postgresql://fhir'', db = d, connect_faults = [],
      current_timestamp = 20, utcnow = 21, today = (2024, 6, 15),
      uuid4 = ''3f2b8c1e-0d4a-4c5e-9b7a-6a1f2e3d4c5b'',
      fromisoformat = fromisoformat_py37\<rparr>"

definition sample_row :: patient_row where
  "sample_row =
     \<lparr>p_id = ''p1'', p_family_name = ''Smith'', p_given_name = ''John'', p_gender = ''male'',
      p_birth_date = (1980, 5, 17), p_medical_summary = Some ''healthy'',
      p_created_at = 10, p_updated_at = 10\<rparr>"

definition sample_db :: database where
  "sample_db =
     \<lparr>patients = [sample_row], observations = [], logs = [], logs_id_seq = 0,
      date_in = iso_date_in\<rparr>"

definition sample_patient :: Patient where
  "sample_patient =
     \<lparr>pt_id = ''p1'', pt_family_name = ''Smith'', pt_given_name = ''John'',
      pt_gender = ''male'', pt_birthDate = ''1980-05-17'', pt_medical_summary = ''healthy''\<rparr>"

definition sample_observation :: Observation where
  "sample_observation =
     \<lparr>ob_patient_id = ''p1'', ob_category = ''vital-signs'', ob_code = ''8867-4'',
      ob_display = ''Heart rate'', ob_value = 72, ob_unit = ''bpm'', ob_date = ''2024-06-01''\<rparr>"

definition no_fields :: PatientUpdate where
  "no_fields =
     \<lparr>pu_family_name = None, pu_given_name = None, pu_gender = None, pu_birthDate = None,
      pu_medical_summary = None\<rparr>"

definition only_gender_other :: PatientUpdate where
  "only_gender_other = no_fields\<lparr>pu_gender := Some (Some ''other'')\<rparr>"

text \<open>
  The state after a handler's transaction has committed tables \<open>dc\<close> and \<open>log_event\<close>
  has run: the patients and observations are the committed ones, and the log has gained
  the entry of the action, unless the log's own connection failed or the resource id
  does not fit its column, in which case the log is as it was. (The column is
  \<open>VARCHAR(50)\<close>: blanks beyond 50 characters are cut, anything else there is an error.)
\<close>

definition after_commit ::
  "world \<Rightarrow> database \<Rightarrow> world \<Rightarrow> string \<Rightarrow> string \<Rightarrow> string \<Rightarrow> bool" where
  "after_commit w dc w' action resource rid =
     (patients (db w') = patients dc \<and> observations (db w') = observations dc
      \<and> logs (db w') =
          (if log_reachable w \<and> fits 50 rid
           then logs (db w) @ [log_entry (db w) (utcnow w) action resource (take 50 rid)]
           else logs (db w)))"

text \<open>The values \<open>create_patient\<close> and \<open>update_patient\<close> write, by column.\<close>

definition patient_columns :: "Patient \<Rightarrow> (string \<times> string option) list" where
  "patient_columns patient =
     [(''family_name'', Some (pt_family_name patient)),
      (''given_name'', Some (pt_given_name patient)),
      (''gender'', Some (pt_gender patient)),
      (''birth_date'', Some (pt_birthDate patient)),
      (''medical_summary'', Some (pt_medical_summary patient))]"

definition stored_row :: patient_row where
  "stored_row = sample_row\<lparr>p_created_at := 20, p_updated_at := 20\<rparr>"

definition stored_observation :: observation_row where
  "stored_observation =
     \<lparr>o_id = ''3f2b8c1e-0d4a-4c5e-9b7a-6a1f2e3d4c5b'', o_patient_id = ''p1'',
      o_category = ''vital-signs'', o_code = ''8867-4'', o_display = ''Heart rate'',
      o_value = 72, o_unit = ''bpm'', o_date = (2024, 6, 1), o_created_at = 20\<rparr>"

definition one_patient :: database where
  "one_patient =
     \<lparr>patients = [stored_row], observations = [], logs = [], logs_id_seq = 0,
      date_in = iso_date_in\<rparr>"

definition one_observation :: database where
  "one_observation =
     \<lparr>patients = [stored_row], observations = [stored_observation],
      logs = [\<lparr>l_id = 1, l_timestamp = 21, l_action = ''CREATE'', l_resource = ''Observation'',
               l_resource_id = ''3f2b8c1e-0d4a-4c5e-9b7a-6a1f2e3d4c5b''\<rparr>],
      logs_id_seq = 1, date_in = iso_date_in\<rparr>"

definition future_birth :: PatientUpdate where
  "future_birth = no_fields\<lparr>pu_birthDate := Some (Some ''2999-01-01'')\<rparr>"

definition malformed_birth :: PatientUpdate where
  "malformed_birth = no_fields\<lparr>pu_birthDate := Some (Some ''13/13/2020'')\<rparr>"

definition empty_gender :: PatientUpdate where
  "empty_gender = no_fields\<lparr>pu_gender := Some (Some [])\<rparr>"

definition gender_null :: PatientUpdate where
  "gender_null = no_fields\<lparr>pu_gender := Some None\<rparr>"

definition summary_null :: PatientUpdate where
  "summary_null = no_fields\<lparr>pu_medical_summary := Some None\<rparr>"

definition name_and_birth :: PatientUpdate where
  "name_and_birth =
     no_fields\<lparr>pu_family_name := Some (Some ''Smyth''),
               pu_birthDate := Some (Some ''1979-12-31'')\<rparr>"

subsection \<open>Transactions and the audit log\<close>

lemma connect_db: "db (snd (connect w)) = db w"
  by (simp add: connect_def split: list.splits)

lemma connect_fields:
  "DATABASE_URL (snd (connect w)) = DATABASE_URL w"
  "current_timestamp (snd (connect w)) = current_timestamp w"
  "utcnow (snd (connect w)) = utcnow w"
  by (simp_all add: connect_def split: list.splits)

lemma connect_cases:
  obtains ok w2 where "connect w = (ok, w2)" "db w2 = db w" "utcnow w2 = utcnow w"
    "DATABASE_URL w2 = DATABASE_URL w"
proof -
  obtain ok w2 where c: "connect w = (ok, w2)" by (cases "connect w")
  have "db w2 = db w" "utcnow w2 = utcnow w" "DATABASE_URL w2 = DATABASE_URL w"
    using connect_db [of w] connect_fields [of w] c by simp_all
  with c that show ?thesis by blast
qed

lemma get_db_connection_Inl:
  assumes "get_db_connection w block = (Inl e, w1)"
  shows "(\<exists>m. e = HTTPException 500 m) \<and> db w1 = db w"
proof -
  obtain ok w2 where c: "connect w = (ok, w2)" "db w2 = db w" by (rule connect_cases)
  show ?thesis
    using assms c
    by (auto simp: get_db_connection_def split: if_splits bool.splits sum.splits exc.splits)
qed

lemma get_db_connection_Inr:
  assumes "get_db_connection w block = (Inr a, w1)"
  shows "block (db w) = Inr (a, db w1) \<and> w1 = (snd (connect w))\<lparr>db := db w1\<rparr>
    \<and> db_reachable w"
proof -
  obtain ok w2 where c: "connect w = (ok, w2)" "db w2 = db w" by (rule connect_cases)
  show ?thesis
    using assms c
    by (auto simp: get_db_connection_def db_reachable_def split: if_splits bool.splits sum.splits exc.splits)
qed

lemma insert_log_tables:
  assumes "insert_log ts a r i d = Inr d'"
  shows "patients d' = patients d \<and> observations d' = observations d
         \<and> logs d' = logs d @ [log_entry d ts (take 20 a) (take 50 r) (take 50 i)]"
  using assms
  by (auto simp: insert_log_def sql_then_def varchar_def log_entry_def split: if_splits)

lemma log_event_tables:
  "patients (db (log_event w a r i)) = patients (db w)
   \<and> observations (db (log_event w a r i)) = observations (db w)
   \<and> (logs (db (log_event w a r i)) = logs (db w)
      \<or> logs (db (log_event w a r i))
          = logs (db w) @ [log_entry (db w) (utcnow w) (take 20 a) (take 50 r) (take 50 i)])"
proof (cases "get_db_connection w
             (\<lambda>d. execute (insert_log (utcnow w) a r i d) (\<lambda>d'. Inr ((), d')))")
  case (Pair res w1)
  show ?thesis
  proof (cases res)
    case (Inl e)
    with Pair have "db w1 = db w" using get_db_connection_Inl by blast
    with Pair Inl show ?thesis by (simp add: log_event_def)
  next
    case (Inr u)
    with Pair have g: "get_db_connection w
             (\<lambda>d. execute (insert_log (utcnow w) a r i d) (\<lambda>d'. Inr ((), d'))) = (Inr u, w1)"
      by simp
    have "execute (insert_log (utcnow w) a r i (db w)) (\<lambda>d'. Inr ((), d')) = Inr (u, db w1)"
      using get_db_connection_Inr [OF g] by simp
    then have "insert_log (utcnow w) a r i (db w) = Inr (db w1)"
      by (auto simp: execute_def split: sum.splits)
    from insert_log_tables [OF this] Pair Inr show ?thesis by (simp add: log_event_def)
  qed
qed

lemmas sample_defs = select_patient_def sample_world_def sample_db_def sample_row_def
  sample_patient_def sample_observation_def no_fields_def initialize_db_def
  get_db_connection_def connect_def execute_def not_found_def quoted_def show_nat.simps
  response_status_def fits_def

lemmas date_eval = iso_date_in_def iso_calendar_date_def is_digit_def decimal_def
  digit_val_def days_in_month_def is_leap_def date_column_def

subsection \<open>Exceptions raised inside a transaction\<close>

text \<open>
  Every handler raises its 404 and 400 inside its \<open>with get_db_connection()\<close> block, so
  the context manager's \<open>except Exception\<close> replaces each by a 500 before the caller sees
  it. The tables stay as they were.
\<close>

lemma update_patient_missing:
  assumes "select_patient (db w) pid = None"
  shows "\<exists>m w1. update_patient w pid p = (Inl (HTTPException 500 m), w1)
    \<and> db w1 = db w"
proof -
  obtain ok w2 where c: "connect w = (ok, w2)" "db w2 = db w" by (rule connect_cases)
  show ?thesis
    using assms c
    by (auto simp: update_patient_def get_db_connection_def not_found_def split: bool.splits)
qed

lemma patch_patient_missing:
  assumes "select_patient (db w) pid = None"
  shows "\<exists>m w1. patch_patient w pid u = (Inl (HTTPException 500 m), w1)
    \<and> db w1 = db w"
proof -
  obtain ok w2 where c: "connect w = (ok, w2)" "db w2 = db w" by (rule connect_cases)
  show ?thesis
    using assms c
    by (auto simp: patch_patient_def get_db_connection_def not_found_def split: bool.splits)
qed

lemma delete_patient_missing:
  assumes "select_patient (db w) pid = None"
  shows "\<exists>m w1. delete_patient w pid = (Inl (HTTPException 500 m), w1)
    \<and> db w1 = db w"
proof -
  obtain ok w2 where c: "connect w = (ok, w2)" "db w2 = db w" by (rule connect_cases)
  show ?thesis
    using assms c
    by (auto simp: delete_patient_def get_db_connection_def not_found_def split: bool.splits)
qed

lemma get_observations_missing:
  assumes "select_patient (db w) pid = None"
  shows "\<exists>m w1. get_observations w pid = (Inl (HTTPException 500 m), w1)
    \<and> db w1 = db w"
proof -
  obtain ok w2 where c: "connect w = (ok, w2)" "db w2 = db w" by (rule connect_cases)
  show ?thesis
    using assms c
    by (auto simp: get_observations_def get_db_connection_def not_found_def split: bool.splits)
qed

lemma create_observation_missing:
  assumes "select_patient (db w) (ob_patient_id ob) = None"
  shows "\<exists>m w1. create_observation w ob = (Inl (HTTPException 500 m), w1)
    \<and> db w1 = db w"
proof -
  obtain ok w2 where c: "connect w = (ok, w2)" "db w2 = db w" by (rule connect_cases)
  show ?thesis
    using assms c
    by (auto simp: create_observation_def get_db_connection_def split: bool.splits)
qed

lemma create_patient_duplicate:
  assumes "select_patient (db w) (pt_id p) \<noteq> None"
  shows "\<exists>m w1. create_patient w p = (Inl (HTTPException 500 m), w1) \<and> db w1 = db w"
proof -
  obtain ok w2 where c: "connect w = (ok, w2)" "db w2 = db w" by (rule connect_cases)
  show ?thesis
    using assms c
    by (auto simp: create_patient_def get_db_connection_def split: bool.splits)
qed

lemma patch_patient_no_fields:
  assumes "select_patient (db w) pid \<noteq> None" "dict_exclude_unset u = []"
  shows "\<exists>m w1. patch_patient w pid u = (Inl (HTTPException 500 m), w1)
    \<and> db w1 = db w"
proof -
  obtain ok w2 where c: "connect w = (ok, w2)" "db w2 = db w" by (rule connect_cases)
  show ?thesis
    using assms c
    by (auto simp: patch_patient_def get_db_connection_def update_fields_def split: bool.splits)
qed

text \<open>
  Claim C1 (the code departs from it). For a patient id that is not in the store,
  replace, patch, delete, listing the patient's observations and creating an observation
  for it all answer with status 500, which is not a client error: the 404 each of them
  raises never reaches the caller.
\<close>

theorem missing_patient_answers_500:
  "select_patient (db w) pid = None \<Longrightarrow>
     response_status (fst (update_patient w pid p)) = 500
     \<and> response_status (fst (patch_patient w pid u)) = 500
     \<and> response_status (fst (delete_patient w pid)) = 500
     \<and> response_status (fst (get_observations w pid)) = 500
     \<and> response_status (fst (create_observation w (ob\<lparr>ob_patient_id := pid\<rparr>))) = 500
     \<and> \<not> is_client_error 500"
proof -
  assume a: "select_patient (db w) pid = None"
  then have b: "select_patient (db w) (ob_patient_id (ob\<lparr>ob_patient_id := pid\<rparr>)) = None"
    by simp
  show ?thesis
    using update_patient_missing [OF a, of p] patch_patient_missing [OF a, of u]
      delete_patient_missing [OF a] get_observations_missing [OF a]
      create_observation_missing [OF b]
    by (auto simp: response_status_def is_client_error_def)
qed

theorem missing_patient_answers_500_witness:
  "select_patient (db (sample_world (initialize_db iso_date_in))) ''ghost'' = None
   \<and> response_status (fst (delete_patient (sample_world (initialize_db iso_date_in)) ''ghost'')) = 500
   \<and> delete_patient (sample_world (initialize_db iso_date_in)) ''ghost'' =
       (Inl (HTTPException 500
          (''Error inesperado: 404: Paciente '' @ quoted ''ghost'' @ '' no encontrado'')),
        sample_world (initialize_db iso_date_in))"
  using missing_patient_answers_500 [of "sample_world (initialize_db iso_date_in)" "''ghost''"]
  by (simp add: sample_defs delete_patient_def)

text \<open>
  Claim C2 (the code departs from it). Creating a patient whose id is already stored
  changes no table, as the claim says, but the answer is status 500, not a client error:
  the 400 raised for the duplicate never reaches the caller.
\<close>

theorem duplicate_id_answers_500:
  "select_patient (db w) (pt_id p) \<noteq> None \<Longrightarrow>
     response_status (fst (create_patient w p)) = 500
     \<and> \<not> is_client_error (response_status (fst (create_patient w p)))
     \<and> db (snd (create_patient w p)) = db w"
proof -
  assume "select_patient (db w) (pt_id p) \<noteq> None"
  from create_patient_duplicate [OF this] show ?thesis
    by (auto simp: response_status_def is_client_error_def)
qed

theorem duplicate_id_answers_500_witness:
  "select_patient (db (sample_world sample_db)) (pt_id sample_patient) \<noteq> None
   \<and> create_patient (sample_world sample_db) sample_patient =
       (Inl (HTTPException 500
          (''Error inesperado: 400: El paciente '' @ quoted ''p1'' @ '' ya existe'')),
        sample_world sample_db)
   \<and> db (snd (create_patient (sample_world sample_db) sample_patient)) = sample_db"
  using duplicate_id_answers_500 [of "sample_world sample_db" sample_patient]
  by (simp add: sample_defs create_patient_def)

text \<open>
  Claim C6 (the code departs from it). A patch that names no field, for a stored
  patient, writes nothing, as the claim says, but the answer is status 500, not a client
  error: the 400 raised for the empty field set never reaches the caller.
\<close>

theorem empty_patch_answers_500:
  "select_patient (db w) pid \<noteq> None \<Longrightarrow> dict_exclude_unset u = [] \<Longrightarrow>
     response_status (fst (patch_patient w pid u)) = 500
     \<and> \<not> is_client_error (response_status (fst (patch_patient w pid u)))
     \<and> db (snd (patch_patient w pid u)) = db w"
proof -
  assume "select_patient (db w) pid \<noteq> None" "dict_exclude_unset u = []"
  from patch_patient_no_fields [OF this] show ?thesis
    by (auto simp: response_status_def is_client_error_def)
qed

theorem empty_patch_answers_500_witness:
  "select_patient (db (sample_world sample_db)) ''p1'' \<noteq> None
   \<and> dict_exclude_unset no_fields = []
   \<and> patch_patient (sample_world sample_db) ''p1'' no_fields =
       (Inl (HTTPException 500
          ''Error inesperado: 400: No se proporcionaron campos para actualizar''),
        sample_world sample_db)"
  using empty_patch_answers_500 [of "sample_world sample_db" "''p1''" no_fields]
  by (simp add: sample_defs patch_patient_def update_fields_def dict_exclude_unset_def item_def)

subsection \<open>Partial update (patch_patient)\<close>

lemma assign_all_append:
  "assign_all cast (xs @ ys) r =
     (case assign_all cast xs r of Inl e \<Rightarrow> Inl e | Inr r' \<Rightarrow> assign_all cast ys r')"
  by (induction xs arbitrary: r) (auto split: sum.splits)

lemma update_fields_items:
  "update_fields u =
     item ''family_name'' (pu_family_name u) @ item ''given_name'' (pu_given_name u)
     @ item ''gender'' (pu_gender u) @ item ''birth_date'' (pu_birthDate u)
     @ item ''medical_summary'' (pu_medical_summary u)"
  by (simp add: update_fields_def dict_exclude_unset_def item_def split: option.splits)

lemma update_fields_empty: "update_fields u = [] \<longleftrightarrow> dict_exclude_unset u = []"
  by (simp add: update_fields_def)

lemma take_short:
  assumes "take n s = t" "length t < n"
  shows "s = t"
proof -
  from assms have "min (length s) n < n" by (metis length_take)
  then have "length s < n" by simp
  with assms(1) show ?thesis by simp
qed

lemma gender_stored:
  assumes "take 10 s = ''male'' \<or> take 10 s = ''female'' \<or> take 10 s = ''other''"
  shows "s = ''male'' \<or> s = ''female'' \<or> s = ''other''"
  using assms take_short [of 10 s "''male''"] take_short [of 10 s "''female''"]
    take_short [of 10 s "''other''"]
  by auto

lemma gender_fits:
  assumes "s = ''male'' \<or> s = ''female'' \<or> s = ''other''"
  shows "fits 10 s \<and> take 10 s = s"
  using assms by (auto simp: fits_def)

lemma assign_family_name:
  assumes "assign_all cast (item ''family_name'' f) r = Inr r'"
  shows "p_id r' = p_id r \<and> p_given_name r' = p_given_name r
    \<and> p_gender r' = p_gender r \<and> p_birth_date r' = p_birth_date r
    \<and> p_medical_summary r' = p_medical_summary r \<and> p_created_at r' = p_created_at r
    \<and> p_updated_at r' = p_updated_at r
    \<and> (case f of None \<Rightarrow> p_family_name r' = p_family_name r
        | Some v \<Rightarrow> (case v of None \<Rightarrow> False
                     | Some s \<Rightarrow> fits 100 s \<and> p_family_name r' = take 100 s))"
  using assms
  by (auto simp: item_def assign_patient_column_def varchar_def split: option.splits if_splits)

lemma assign_given_name:
  assumes "assign_all cast (item ''given_name'' f) r = Inr r'"
  shows "p_id r' = p_id r \<and> p_family_name r' = p_family_name r
    \<and> p_gender r' = p_gender r \<and> p_birth_date r' = p_birth_date r
    \<and> p_medical_summary r' = p_medical_summary r \<and> p_created_at r' = p_created_at r
    \<and> p_updated_at r' = p_updated_at r
    \<and> (case f of None \<Rightarrow> p_given_name r' = p_given_name r
        | Some v \<Rightarrow> (case v of None \<Rightarrow> False
                     | Some s \<Rightarrow> fits 100 s \<and> p_given_name r' = take 100 s))"
  using assms
  by (auto simp: item_def assign_patient_column_def varchar_def split: option.splits if_splits)

lemma assign_gender:
  assumes "assign_all cast (item ''gender'' f) r = Inr r'"
  shows "p_id r' = p_id r \<and> p_family_name r' = p_family_name r
    \<and> p_given_name r' = p_given_name r \<and> p_birth_date r' = p_birth_date r
    \<and> p_medical_summary r' = p_medical_summary r \<and> p_created_at r' = p_created_at r
    \<and> p_updated_at r' = p_updated_at r
    \<and> (case f of None \<Rightarrow> p_gender r' = p_gender r
        | Some v \<Rightarrow> v = Some (p_gender r')
            \<and> (p_gender r' = ''male'' \<or> p_gender r' = ''female'' \<or> p_gender r' = ''other''))"
proof (cases f)
  case None
  with assms show ?thesis by (simp add: item_def)
next
  case (Some v)
  with assms obtain s where s: "v = Some s" and r': "r' = r\<lparr>p_gender := take 10 s\<rparr>"
    and g: "take 10 s = ''male'' \<or> take 10 s = ''female'' \<or> take 10 s = ''other''"
    by (auto simp: item_def assign_patient_column_def varchar_def
        split: option.splits if_splits sum.splits)
  from gender_fits [OF gender_stored [OF g]] have "take 10 s = s" by simp
  with s r' g Some show ?thesis by simp
qed

lemma assign_birth_date:
  assumes "assign_all cast (item ''birth_date'' f) r = Inr r'"
  shows "p_id r' = p_id r \<and> p_family_name r' = p_family_name r
    \<and> p_given_name r' = p_given_name r \<and> p_gender r' = p_gender r
    \<and> p_medical_summary r' = p_medical_summary r \<and> p_created_at r' = p_created_at r
    \<and> p_updated_at r' = p_updated_at r
    \<and> (case f of None \<Rightarrow> p_birth_date r' = p_birth_date r
        | Some v \<Rightarrow> (case v of None \<Rightarrow> False | Some s \<Rightarrow> cast s = Some (p_birth_date r')))"
  using assms
  by (auto simp: item_def assign_patient_column_def date_column_def split: option.splits if_splits)

lemma assign_medical_summary:
  assumes "assign_all cast (item ''medical_summary'' f) r = Inr r'"
  shows "p_id r' = p_id r \<and> p_family_name r' = p_family_name r
    \<and> p_given_name r' = p_given_name r \<and> p_gender r' = p_gender r
    \<and> p_birth_date r' = p_birth_date r \<and> p_created_at r' = p_created_at r
    \<and> p_updated_at r' = p_updated_at r
    \<and> (case f of None \<Rightarrow> p_medical_summary r' = p_medical_summary r
        | Some v \<Rightarrow> p_medical_summary r' = v)"
  using assms
  by (auto simp: item_def assign_patient_column_def varchar_def split: option.splits if_splits)

lemma assign_update_fields:
  assumes "assign_all cast (update_fields u) r = Inr r'"
  shows "p_id r' = p_id r \<and> p_created_at r' = p_created_at r
    \<and> p_updated_at r' = p_updated_at r
    \<and> (case pu_family_name u of None \<Rightarrow> p_family_name r' = p_family_name r
        | Some v \<Rightarrow> (case v of None \<Rightarrow> False
                     | Some s \<Rightarrow> fits 100 s \<and> p_family_name r' = take 100 s))
    \<and> (case pu_given_name u of None \<Rightarrow> p_given_name r' = p_given_name r
        | Some v \<Rightarrow> (case v of None \<Rightarrow> False
                     | Some s \<Rightarrow> fits 100 s \<and> p_given_name r' = take 100 s))
    \<and> (case pu_gender u of None \<Rightarrow> p_gender r' = p_gender r
        | Some v \<Rightarrow> v = Some (p_gender r')
            \<and> (p_gender r' = ''male'' \<or> p_gender r' = ''female'' \<or> p_gender r' = ''other''))
    \<and> (case pu_birthDate u of None \<Rightarrow> p_birth_date r' = p_birth_date r
        | Some v \<Rightarrow> (case v of None \<Rightarrow> False | Some s \<Rightarrow> cast s = Some (p_birth_date r')))
    \<and> (case pu_medical_summary u of None \<Rightarrow> p_medical_summary r' = p_medical_summary r
        | Some v \<Rightarrow> p_medical_summary r' = v)"
proof -
  from assms obtain r1 where
    1: "assign_all cast (item ''family_name'' (pu_family_name u)) r = Inr r1" and
    a1: "assign_all cast (item ''given_name'' (pu_given_name u) @ item ''gender'' (pu_gender u)
           @ item ''birth_date'' (pu_birthDate u)
           @ item ''medical_summary'' (pu_medical_summary u)) r1 = Inr r'"
    by (auto simp: update_fields_items assign_all_append split: sum.splits)
  from a1 obtain r2 where
    2: "assign_all cast (item ''given_name'' (pu_given_name u)) r1 = Inr r2" and
    a2: "assign_all cast (item ''gender'' (pu_gender u) @ item ''birth_date'' (pu_birthDate u)
           @ item ''medical_summary'' (pu_medical_summary u)) r2 = Inr r'"
    by (auto simp: assign_all_append split: sum.splits)
  from a2 obtain r3 where
    3: "assign_all cast (item ''gender'' (pu_gender u)) r2 = Inr r3" and
    a3: "assign_all cast (item ''birth_date'' (pu_birthDate u)
           @ item ''medical_summary'' (pu_medical_summary u)) r3 = Inr r'"
    by (auto simp: assign_all_append split: sum.splits)
  from a3 obtain r4 where
    4: "assign_all cast (item ''birth_date'' (pu_birthDate u)) r3 = Inr r4" and
    5: "assign_all cast (item ''medical_summary'' (pu_medical_summary u)) r4 = Inr r'"
    by (auto simp: assign_all_append split: sum.splits)
  show ?thesis
    using assign_family_name [OF 1] assign_given_name [OF 2] assign_gender [OF 3]
      assign_birth_date [OF 4] assign_medical_summary [OF 5]
    by (simp split: option.splits)
qed

lemma ex_date: "\<exists>a b c. (y :: date) = (a, b, c)"
  by (cases y) auto

lemma assign_stored:
  assumes "assign_all (date_in d) (update_fields u) r = Inr r'"
  shows "storable d u"
  using assign_update_fields [OF assms]
  by (simp add: storable_def ex_date split: option.splits)

text \<open>Values that can be stored are stored, column by column.\<close>

lemma assign_varchar_100:
  assumes "col = ''family_name'' \<or> col = ''given_name''"
    "case f of None \<Rightarrow> True | Some v \<Rightarrow> (case v of None \<Rightarrow> False | Some s \<Rightarrow> fits 100 s)"
  shows "\<exists>r'. assign_all cast (item col f) r = Inr r'"
  using assms
  by (auto simp: item_def assign_patient_column_def varchar_def split: option.splits)

lemma assign_gender_ok:
  assumes "case f of None \<Rightarrow> True
           | Some v \<Rightarrow> (case v of None \<Rightarrow> False
                        | Some s \<Rightarrow> s = ''male'' \<or> s = ''female'' \<or> s = ''other'')"
  shows "\<exists>r'. assign_all cast (item ''gender'' f) r = Inr r'"
  using assms
  by (auto simp: item_def assign_patient_column_def varchar_def fits_def split: option.splits)

lemma assign_birth_date_ok:
  assumes "case f of None \<Rightarrow> True
           | Some v \<Rightarrow> (case v of None \<Rightarrow> False | Some s \<Rightarrow> cast s \<noteq> None)"
  shows "\<exists>r'. assign_all cast (item ''birth_date'' f) r = Inr r'"
  using assms
  by (auto simp: item_def assign_patient_column_def date_column_def split: option.splits)

lemma assign_medical_summary_ok:
  "\<exists>r'. assign_all cast (item ''medical_summary'' f) r = Inr r'"
  by (auto simp: item_def assign_patient_column_def split: option.splits)

lemma assign_storable:
  assumes "storable d u"
  shows "\<exists>r'. assign_all (date_in d) (update_fields u) r = Inr r'"
proof -
  from assms have
    f: "case pu_family_name u of None \<Rightarrow> True
        | Some v \<Rightarrow> (case v of None \<Rightarrow> False | Some s \<Rightarrow> fits 100 s)" and
    g: "case pu_given_name u of None \<Rightarrow> True
        | Some v \<Rightarrow> (case v of None \<Rightarrow> False | Some s \<Rightarrow> fits 100 s)" and
    s: "case pu_gender u of None \<Rightarrow> True
        | Some v \<Rightarrow> (case v of None \<Rightarrow> False
                     | Some s \<Rightarrow> s = ''male'' \<or> s = ''female'' \<or> s = ''other'')" and
    b: "case pu_birthDate u of None \<Rightarrow> True
        | Some v \<Rightarrow> (case v of None \<Rightarrow> False | Some s \<Rightarrow> date_in d s \<noteq> None)"
    by (simp_all add: storable_def)
  obtain r1 where 1: "assign_all (date_in d) (item ''family_name'' (pu_family_name u)) r = Inr r1"
    using assign_varchar_100 [OF _ f, of "''family_name''"] by auto
  obtain r2 where 2: "assign_all (date_in d) (item ''given_name'' (pu_given_name u)) r1 = Inr r2"
    using assign_varchar_100 [OF _ g, of "''given_name''"] by auto
  obtain r3 where 3: "assign_all (date_in d) (item ''gender'' (pu_gender u)) r2 = Inr r3"
    using assign_gender_ok [OF s] by blast
  obtain r4 where 4: "assign_all (date_in d) (item ''birth_date'' (pu_birthDate u)) r3 = Inr r4"
    using assign_birth_date_ok [OF b] by blast
  obtain r5 where
    5: "assign_all (date_in d) (item ''medical_summary'' (pu_medical_summary u)) r4 = Inr r5"
    using assign_medical_summary_ok by blast
  show ?thesis
    using 1 2 3 4 5 by (simp add: update_fields_items assign_all_append)
qed

lemma update_where_id_other:
  assumes "update_where_id f pid rs = Inr rs'" "q \<noteq> pid"
    "\<And>r r'. f r = Inr r' \<Longrightarrow> p_id r' = p_id r"
  shows "find (\<lambda>r. p_id r = q) rs' = find (\<lambda>r. p_id r = q) rs"
  using assms(1)
proof (induction rs arbitrary: rs')
  case Nil
  then show ?case by simp
next
  case (Cons a rs)
  then show ?case
    using assms(2) assms(3) [of a]
    by (auto split: sum.splits if_splits)
qed

lemma update_where_id_same:
  assumes "update_where_id f pid rs = Inr rs'" "find (\<lambda>r. p_id r = pid) rs = Some r"
    "\<And>r r'. f r = Inr r' \<Longrightarrow> p_id r' = p_id r"
  shows "\<exists>r'. f r = Inr r' \<and> find (\<lambda>r. p_id r = pid) rs' = Some r'"
  using assms(1,2)
proof (induction rs arbitrary: rs')
  case Nil
  then show ?case by simp
next
  case (Cons a rs)
  then show ?case
    using assms(3) [of a]
    by (auto split: sum.splits if_splits)
qed

lemma update_where_id_fails:
  assumes "find (\<lambda>r. p_id r = pid) rs \<noteq> None" "\<And>r. \<exists>e. f r = Inl e"
  shows "\<exists>e. update_where_id f pid rs = Inl e"
  using assms(1)
proof (induction rs)
  case Nil
  then show ?case by simp
next
  case (Cons a rs)
  then show ?case
    using assms(2) [of a]
    by (auto split: sum.splits if_splits)
qed

lemma update_where_id_succeeds:
  assumes "\<And>r. \<exists>r'. f r = Inr r'"
  shows "\<exists>rs'. update_where_id f pid rs = Inr rs'"
proof (induction rs)
  case Nil
  then show ?case by simp
next
  case (Cons a rs)
  from assms [of a] obtain a' where "f a = Inr a'" by blast
  with Cons show ?case by auto
qed

lemma update_patients_storable:
  assumes "storable d u"
  shows "\<exists>d'. update_patients now (update_fields u) pid d = Inr d'"
proof -
  let ?f = "\<lambda>r. case assign_all (date_in d) (update_fields u) r of
                   Inl e \<Rightarrow> Inl e
                 | Inr r' \<Rightarrow> Inr (r'\<lparr>p_updated_at := now\<rparr>)"
  have "\<exists>r'. ?f r = Inr r'" for r
    using assign_storable [OF assms, of r] by auto
  from update_where_id_succeeds [of ?f pid "patients d", OF this]
  show ?thesis by (auto simp: update_patients_def)
qed

lemma patch_patient_Inr:
  assumes "patch_patient w pid u = (Inr m, w')"
  shows "\<exists>w1. update_patients (current_timestamp w) (update_fields u) pid (db w) = Inr (db w1)
           \<and> w' = log_event w1 ''PATCH'' ''Patient'' pid
           \<and> w1 = (snd (connect w))\<lparr>db := db w1\<rparr> \<and> db_reachable w
           \<and> update_fields u \<noteq> [] \<and> select_patient (db w) pid \<noteq> None
           \<and> m = ''Paciente actualizado parcialmente''"
proof -
  define B :: "database \<Rightarrow> exc + unit \<times> database" where
    "B = (\<lambda>d. if select_patient d pid = None then Inl (not_found pid)
               else if update_fields u = [] then
                 Inl (HTTPException 400 ''No se proporcionaron campos para actualizar'')
               else execute (update_patients (current_timestamp w) (update_fields u) pid d)
                      (\<lambda>d'. Inr ((), d')))"
  obtain res w1 where g: "get_db_connection w B = (res, w1)"
    by (cases "get_db_connection w B")
  with assms obtain x where r: "res = Inr x" and w': "w' = log_event w1 ''PATCH'' ''Patient'' pid"
    and m: "m = ''Paciente actualizado parcialmente''"
    by (auto simp: patch_patient_def B_def split: sum.splits)
  from get_db_connection_Inr [OF g [unfolded r]]
  have b: "B (db w) = Inr (x, db w1)" and rest: "w1 = (snd (connect w))\<lparr>db := db w1\<rparr>" "db_reachable w"
    by simp_all
  from b have "update_patients (current_timestamp w) (update_fields u) pid (db w) = Inr (db w1)
     \<and> update_fields u \<noteq> [] \<and> select_patient (db w) pid \<noteq> None"
    by (auto simp: B_def execute_def split: if_splits sum.splits)
  with w' rest m show ?thesis by blast
qed

lemma patch_patient_commits:
  assumes "db_reachable w" "select_patient (db w) pid \<noteq> None" "update_fields u \<noteq> []"
    "update_patients (current_timestamp w) (update_fields u) pid (db w) = Inr dc"
  shows "patch_patient w pid u =
      (Inr ''Paciente actualizado parcialmente'',
       log_event ((snd (connect w))\<lparr>db := dc\<rparr>) ''PATCH'' ''Patient'' pid)"
proof -
  obtain ok w2 where c: "connect w = (ok, w2)" "db w2 = db w" by (rule connect_cases)
  show ?thesis
    using assms c
    by (auto simp: patch_patient_def get_db_connection_def db_reachable_def execute_def)
qed

lemma update_patients_tables:
  assumes "update_patients now sets pid d = Inr d'"
  shows "observations d' = observations d \<and> logs d' = logs d
    \<and> logs_id_seq d' = logs_id_seq d"
  using assms by (auto simp: update_patients_def split: sum.splits)

lemma update_where_id_total:
  assumes "\<And>r. f r = Inr (g r)"
  shows "update_where_id f pid rs = Inr (map (\<lambda>r. if p_id r = pid then g r else r) rs)"
  by (induction rs) (simp_all add: assms)

lemma find_map_id:
  assumes "\<And>r. p_id (h r) = p_id r"
  shows "find (\<lambda>r. p_id r = q) (map h rs) = map_option h (find (\<lambda>r. p_id r = q) rs)"
  by (induction rs) (simp_all add: assms)

lemma find_id: "find (\<lambda>r. p_id r = q) rs = Some r \<Longrightarrow> p_id r = q"
  by (induction rs) (auto split: if_splits)

text \<open>A patch whose assignments cannot fail, on a stored patient.\<close>

lemma patch_total:
  assumes "db_reachable w" "select_patient (db w) pid = Some r" "update_fields u \<noteq> []"
    "\<And>r. assign_all (date_in (db w)) (update_fields u) r = Inr (g r)"
    "\<And>r. p_id (g r) = p_id r"
  shows "fst (patch_patient w pid u) = Inr ''Paciente actualizado parcialmente''
    \<and> select_patient (db (snd (patch_patient w pid u))) pid
        = Some ((g r)\<lparr>p_updated_at := current_timestamp w\<rparr>)"
proof -
  let ?g = "\<lambda>r. (g r)\<lparr>p_updated_at := current_timestamp w\<rparr>"
  let ?h = "\<lambda>r. if p_id r = pid then ?g r else r"
  let ?d1 = "(db w)\<lparr>patients := map ?h (patients (db w))\<rparr>"
  let ?w1 = "(snd (connect w))\<lparr>db := ?d1\<rparr>"
  have f: "\<And>r. (case assign_all (date_in (db w)) (update_fields u) r of
                  Inl e \<Rightarrow> Inl e
                | Inr r' \<Rightarrow> Inr (r'\<lparr>p_updated_at := current_timestamp w\<rparr>)) = Inr (?g r)"
    by (simp add: assms(4))
  have u: "update_patients (current_timestamp w) (update_fields u) pid (db w) = Inr ?d1"
    unfolding update_patients_def
    by (subst update_where_id_total [where g = ?g, OF f]) simp
  from assms(2) have ex: "select_patient (db w) pid \<noteq> None" by simp
  have p: "patch_patient w pid u =
      (Inr ''Paciente actualizado parcialmente'', log_event ?w1 ''PATCH'' ''Patient'' pid)"
    by (rule patch_patient_commits [OF assms(1) ex assms(3) u])
  have "patients (db (log_event ?w1 ''PATCH'' ''Patient'' pid)) = map ?h (patients (db w))"
    using log_event_tables [of ?w1 "''PATCH''" "''Patient''" pid] by simp
  then have "select_patient (db (snd (patch_patient w pid u))) pid
      = map_option ?h (select_patient (db w) pid)"
    by (simp add: p select_patient_def find_map_id assms(5))
  with assms(2) find_id [of pid "patients (db w)" r] p show ?thesis
    by (simp add: select_patient_def)
qed

lemma update_fields_only_gender_other:
  "update_fields only_gender_other = [(''gender'', Some ''other'')]"
  by (simp add: update_fields_def dict_exclude_unset_def item_def only_gender_other_def
      no_fields_def)

lemma patch_only_gender_other:
  assumes "db_reachable w" "select_patient (db w) pid = Some r"
  shows "fst (patch_patient w pid only_gender_other) = Inr ''Paciente actualizado parcialmente''
    \<and> select_patient (db (snd (patch_patient w pid only_gender_other))) pid
        = Some (r\<lparr>p_gender := ''other'', p_updated_at := current_timestamp w\<rparr>)"
  using patch_total [OF assms, of only_gender_other "\<lambda>r. r\<lparr>p_gender := ''other''\<rparr>"]
  by (simp add: update_fields_only_gender_other assign_patient_column_def varchar_def fits_def)

text \<open>
  Claim C7. (1) When a patch of a stored patient succeeds, the patient's row afterwards
  has the same \<open>id\<close> and \<open>created_at\<close>, its \<open>updated_at\<close> is the transaction's
  \<open>CURRENT_TIMESTAMP\<close>, every column the body names holds the body's value (a name cut
  to the 100 characters of its column, where only blanks can be cut; the date column
  the date the server reads from the body's \<open>birthDate\<close>), and every column the body
  does not name is unchanged; the rows of the other patients and the observations are
  unchanged. (2) A patch succeeds exactly when the database is reachable, the patient
  is stored, the body names at least one field and every value it names can be stored
  in its column. (3) In particular a body that names only \<open>gender\<close>, with the value
  \<open>other\<close>, succeeds on every stored patient when the database is reachable, and changes
  \<open>gender\<close> and \<open>updated_at\<close> only.
\<close>

theorem patch_updates_named_columns:
  "(patch_patient w pid u = (Inr m, w') \<and> select_patient (db w) pid = Some r \<longrightarrow>
      (\<exists>r'. select_patient (db w') pid = Some r'
         \<and> p_id r' = p_id r \<and> p_created_at r' = p_created_at r
         \<and> p_updated_at r' = current_timestamp w
         \<and> (case pu_family_name u of None \<Rightarrow> p_family_name r' = p_family_name r
             | Some v \<Rightarrow> (case v of None \<Rightarrow> False
                          | Some s \<Rightarrow> p_family_name r' = take 100 s))
         \<and> (case pu_given_name u of None \<Rightarrow> p_given_name r' = p_given_name r
             | Some v \<Rightarrow> (case v of None \<Rightarrow> False
                          | Some s \<Rightarrow> p_given_name r' = take 100 s))
         \<and> (case pu_gender u of None \<Rightarrow> p_gender r' = p_gender r
             | Some v \<Rightarrow> v = Some (p_gender r'))
         \<and> (case pu_birthDate u of None \<Rightarrow> p_birth_date r' = p_birth_date r
             | Some v \<Rightarrow> (case v of None \<Rightarrow> False
                          | Some s \<Rightarrow> date_in (db w) s = Some (p_birth_date r')))
         \<and> (case pu_medical_summary u of None \<Rightarrow> p_medical_summary r' = p_medical_summary r
             | Some v \<Rightarrow> p_medical_summary r' = v))
      \<and> (\<forall>q. q \<noteq> pid \<longrightarrow> select_patient (db w') q = select_patient (db w) q)
      \<and> observations (db w') = observations (db w))
   \<and> (fst (patch_patient w pid u) = Inr m \<longleftrightarrow>
        m = ''Paciente actualizado parcialmente'' \<and> db_reachable w
        \<and> select_patient (db w) pid \<noteq> None \<and> dict_exclude_unset u \<noteq> []
        \<and> storable (db w) u)
   \<and> (db_reachable w \<and> select_patient (db w) pid = Some r \<longrightarrow>
        fst (patch_patient w pid only_gender_other) = Inr ''Paciente actualizado parcialmente''
        \<and> select_patient (db (snd (patch_patient w pid only_gender_other))) pid
            = Some (r\<lparr>p_gender := ''other'', p_updated_at := current_timestamp w\<rparr>))"
proof (intro conjI impI)
  assume "db_reachable w \<and> select_patient (db w) pid = Some r"
  then show "fst (patch_patient w pid only_gender_other) = Inr ''Paciente actualizado parcialmente''"
    and "select_patient (db (snd (patch_patient w pid only_gender_other))) pid
            = Some (r\<lparr>p_gender := ''other'', p_updated_at := current_timestamp w\<rparr>)"
    using patch_only_gender_other by blast+
next
  let ?f = "\<lambda>r. case assign_all (date_in (db w)) (update_fields u) r of
                   Inl e \<Rightarrow> Inl e
                 | Inr r' \<Rightarrow> Inr (r'\<lparr>p_updated_at := current_timestamp w\<rparr>)"
  have fid: "\<And>r r'. ?f r = Inr r' \<Longrightarrow> p_id r' = p_id r"
    using assign_update_fields by (fastforce split: sum.splits)
  show "fst (patch_patient w pid u) = Inr m \<longleftrightarrow>
        m = ''Paciente actualizado parcialmente'' \<and> db_reachable w
        \<and> select_patient (db w) pid \<noteq> None \<and> dict_exclude_unset u \<noteq> []
        \<and> storable (db w) u"
  proof
    assume "fst (patch_patient w pid u) = Inr m"
    then have pp: "patch_patient w pid u = (Inr m, snd (patch_patient w pid u))"
      by (metis prod.collapse)
    from patch_patient_Inr [OF pp] obtain dc where
      up: "update_patients (current_timestamp w) (update_fields u) pid (db w) = Inr dc"
      by auto
    from patch_patient_Inr [OF pp] have
      rest: "db_reachable w" "update_fields u \<noteq> []" "select_patient (db w) pid \<noteq> None"
        "m = ''Paciente actualizado parcialmente''"
      by auto
    from up obtain rs where uw: "update_where_id ?f pid (patients (db w)) = Inr rs"
      by (auto simp: update_patients_def split: sum.splits)
    from rest(3) obtain r0 where "find (\<lambda>r. p_id r = pid) (patients (db w)) = Some r0"
      by (auto simp: select_patient_def)
    from update_where_id_same [OF uw this fid] obtain r' where "?f r0 = Inr r'" by blast
    then obtain r1 where "assign_all (date_in (db w)) (update_fields u) r0 = Inr r1"
      by (auto split: sum.splits)
    from assign_stored [OF this] rest
    show "m = ''Paciente actualizado parcialmente'' \<and> db_reachable w
        \<and> select_patient (db w) pid \<noteq> None \<and> dict_exclude_unset u \<noteq> []
        \<and> storable (db w) u"
      by (simp add: update_fields_empty)
  next
    assume a: "m = ''Paciente actualizado parcialmente'' \<and> db_reachable w
        \<and> select_patient (db w) pid \<noteq> None \<and> dict_exclude_unset u \<noteq> []
        \<and> storable (db w) u"
    then obtain dc where
      "update_patients (current_timestamp w) (update_fields u) pid (db w) = Inr dc"
      using update_patients_storable by blast
    from patch_patient_commits [OF _ _ _ this] a
    show "fst (patch_patient w pid u) = Inr m"
      by (simp add: update_fields_empty)
  qed
  assume a: "patch_patient w pid u = (Inr m, w') \<and> select_patient (db w) pid = Some r"
  then obtain w1 where
    up: "update_patients (current_timestamp w) (update_fields u) pid (db w) = Inr (db w1)" and
    w': "w' = log_event w1 ''PATCH'' ''Patient'' pid"
    using patch_patient_Inr by blast
  from up obtain rs where "update_where_id ?f pid (patients (db w)) = Inr rs"
    "db w1 = (db w)\<lparr>patients := rs\<rparr>"
    by (auto simp: update_patients_def split: sum.splits)
  then have uw: "update_where_id ?f pid (patients (db w)) = Inr (patients (db w1))"
    by simp
  have pw: "patients (db w') = patients (db w1)" "observations (db w') = observations (db w1)"
    using log_event_tables [of w1 "''PATCH''" "''Patient''" pid] w' by simp_all
  show "observations (db w') = observations (db w)"
    using pw update_patients_tables [OF up] by simp
  show "\<forall>q. q \<noteq> pid \<longrightarrow> select_patient (db w') q = select_patient (db w) q"
    using update_where_id_other [OF uw _ fid] pw by (simp add: select_patient_def)
  from a have "find (\<lambda>r. p_id r = pid) (patients (db w)) = Some r"
    by (simp add: select_patient_def)
  from update_where_id_same [OF uw this fid] obtain r' where
    r': "?f r = Inr r'" "find (\<lambda>r. p_id r = pid) (patients (db w1)) = Some r'"
    by blast
  from r'(1) obtain r0 where r0: "assign_all (date_in (db w)) (update_fields u) r = Inr r0"
    "r' = r0\<lparr>p_updated_at := current_timestamp w\<rparr>"
    by (auto split: sum.splits)
  show "\<exists>r'. select_patient (db w') pid = Some r'
         \<and> p_id r' = p_id r \<and> p_created_at r' = p_created_at r
         \<and> p_updated_at r' = current_timestamp w
         \<and> (case pu_family_name u of None \<Rightarrow> p_family_name r' = p_family_name r
             | Some v \<Rightarrow> (case v of None \<Rightarrow> False
                          | Some s \<Rightarrow> p_family_name r' = take 100 s))
         \<and> (case pu_given_name u of None \<Rightarrow> p_given_name r' = p_given_name r
             | Some v \<Rightarrow> (case v of None \<Rightarrow> False
                          | Some s \<Rightarrow> p_given_name r' = take 100 s))
         \<and> (case pu_gender u of None \<Rightarrow> p_gender r' = p_gender r
             | Some v \<Rightarrow> v = Some (p_gender r'))
         \<and> (case pu_birthDate u of None \<Rightarrow> p_birth_date r' = p_birth_date r
             | Some v \<Rightarrow> (case v of None \<Rightarrow> False
                          | Some s \<Rightarrow> date_in (db w) s = Some (p_birth_date r')))
         \<and> (case pu_medical_summary u of None \<Rightarrow> p_medical_summary r' = p_medical_summary r
             | Some v \<Rightarrow> p_medical_summary r' = v)"
    using assign_update_fields [OF r0(1)] r'(2) [unfolded r0(2)] pw
    by (intro exI [of _ "r0\<lparr>p_updated_at := current_timestamp w\<rparr>"])
      (simp add: select_patient_def split: option.splits)
qed

lemmas patch_eval = sample_defs patch_patient_def update_fields_def dict_exclude_unset_def item_def
  only_gender_other_def update_patients_def assign_patient_column_def varchar_def
  log_event_def insert_log_def sql_then_def db_reachable_def

theorem patch_updates_named_columns_witness:
  "patch_patient (sample_world sample_db) ''p1'' only_gender_other =
     (Inr ''Paciente actualizado parcialmente'',
      sample_world
        \<lparr>patients = [sample_row\<lparr>p_gender := ''other'', p_updated_at := 20\<rparr>],
         observations = [],
         logs = [\<lparr>l_id = 1, l_timestamp = 21, l_action = ''PATCH'', l_resource = ''Patient'',
                  l_resource_id = ''p1''\<rparr>],
         logs_id_seq = 1, date_in = iso_date_in\<rparr>)
   \<and> select_patient (db (sample_world sample_db)) ''p1'' = Some sample_row
   \<and> db_reachable (sample_world sample_db)
   \<and> select_patient
        (db (snd (patch_patient (sample_world sample_db) ''p1'' only_gender_other))) ''p1''
      = Some (sample_row\<lparr>p_gender := ''other'', p_updated_at := 20\<rparr>)
   \<and> select_patient
        (db (snd (patch_patient (sample_world sample_db) ''p1'' only_gender_other))) ''p2''
      = select_patient (db (sample_world sample_db)) ''p2''
   \<and> dict_exclude_unset name_and_birth \<noteq> []
   \<and> storable (db (sample_world sample_db)) name_and_birth
   \<and> patch_patient (sample_world sample_db) ''p1'' name_and_birth =
     (Inr ''Paciente actualizado parcialmente'',
      sample_world
        \<lparr>patients = [sample_row\<lparr>p_family_name := ''Smyth'', p_birth_date := (1979, 12, 31),
                                p_updated_at := 20\<rparr>],
         observations = [],
         logs = [\<lparr>l_id = 1, l_timestamp = 21, l_action = ''PATCH'', l_resource = ''Patient'',
                  l_resource_id = ''p1''\<rparr>],
         logs_id_seq = 1, date_in = iso_date_in\<rparr>)
   \<and> date_in (db (sample_world sample_db)) ''1979-12-31'' = Some (1979, 12, 31)"
proof -
  have e: "patch_patient (sample_world sample_db) ''p1'' only_gender_other =
     (Inr ''Paciente actualizado parcialmente'',
      sample_world
        \<lparr>patients = [sample_row\<lparr>p_gender := ''other'', p_updated_at := 20\<rparr>],
         observations = [],
         logs = [\<lparr>l_id = 1, l_timestamp = 21, l_action = ''PATCH'', l_resource = ''Patient'',
                  l_resource_id = ''p1''\<rparr>],
         logs_id_seq = 1, date_in = iso_date_in\<rparr>)"
    by (simp add: patch_eval)
  have s: "select_patient (db (sample_world sample_db)) ''p1'' = Some sample_row"
    "db_reachable (sample_world sample_db)"
    by (simp_all add: patch_eval)
  have n: "dict_exclude_unset name_and_birth \<noteq> []"
    "storable (db (sample_world sample_db)) name_and_birth"
    "date_in (db (sample_world sample_db)) ''1979-12-31'' = Some (1979, 12, 31)"
    by (simp_all add: patch_eval date_eval storable_def name_and_birth_def)
  have f: "patch_patient (sample_world sample_db) ''p1'' name_and_birth =
     (Inr ''Paciente actualizado parcialmente'',
      sample_world
        \<lparr>patients = [sample_row\<lparr>p_family_name := ''Smyth'', p_birth_date := (1979, 12, 31),
                                p_updated_at := 20\<rparr>],
         observations = [],
         logs = [\<lparr>l_id = 1, l_timestamp = 21, l_action = ''PATCH'', l_resource = ''Patient'',
                  l_resource_id = ''p1''\<rparr>],
         logs_id_seq = 1, date_in = iso_date_in\<rparr>)"
    by (simp add: patch_eval date_eval name_and_birth_def)
  have g: "fst (patch_patient (sample_world sample_db) ''p1'' name_and_birth)
      = Inr ''Paciente actualizado parcialmente''"
    using patch_updates_named_columns [of "sample_world sample_db" "''p1''" name_and_birth
        "''Paciente actualizado parcialmente''"] s n
    by simp
  show ?thesis
    using patch_updates_named_columns [of "sample_world sample_db" "''p1''" only_gender_other
        "''Paciente actualizado parcialmente''"
        "snd (patch_patient (sample_world sample_db) ''p1'' only_gender_other)" sample_row] s n f g
    by (simp add: e) (simp add: sample_defs)
qed

subsection \<open>A field set to null\<close>

lemma assign_null:
  assumes "col = ''family_name'' \<or> col = ''given_name'' \<or> col = ''gender'' \<or> col = ''birth_date''"
  shows "assign_patient_column cast col None r = Inl (NotNullViolation col)"
  using assms by (auto simp: assign_patient_column_def varchar_def date_column_def)

lemma assign_all_null:
  assumes "(col, None) \<in> set sets"
    "col = ''family_name'' \<or> col = ''given_name'' \<or> col = ''gender'' \<or> col = ''birth_date''"
  shows "\<exists>e. assign_all cast sets r = Inl e"
  using assms(1)
proof (induction sets arbitrary: r)
  case Nil
  then show ?case by simp
next
  case (Cons a sets)
  obtain c v where a: "a = (c, v)" by (cases a)
  show ?case
  proof (cases "assign_patient_column cast c v r")
    case (Inl e)
    with a show ?thesis by simp
  next
    case (Inr r')
    with assign_null [OF assms(2), of cast r] a have "(col, None) \<noteq> a" by auto
    with Cons.prems have "(col, None) \<in> set sets" by simp
    from Cons.IH [OF this, of r'] a Inr show ?thesis by simp
  qed
qed

lemma update_fields_null:
  assumes "pu_family_name u = Some None \<or> pu_given_name u = Some None
           \<or> pu_gender u = Some None \<or> pu_birthDate u = Some None"
  shows "\<exists>col. (col, None) \<in> set (update_fields u)
           \<and> (col = ''family_name'' \<or> col = ''given_name'' \<or> col = ''gender'' \<or> col = ''birth_date'')"
  using assms by (auto simp: update_fields_items item_def)

lemma patch_null_fails:
  assumes "db_reachable w" "select_patient (db w) pid \<noteq> None"
    "pu_family_name u = Some None \<or> pu_given_name u = Some None
     \<or> pu_gender u = Some None \<or> pu_birthDate u = Some None"
  shows "\<exists>e w1. patch_patient w pid u
            = (Inl (HTTPException 500 (''Error de base de datos: '' @ str_pg e)), w1)
          \<and> db w1 = db w"
proof -
  obtain col where col: "(col, None) \<in> set (update_fields u)"
    "col = ''family_name'' \<or> col = ''given_name'' \<or> col = ''gender'' \<or> col = ''birth_date''"
    using update_fields_null [OF assms(3)] by blast
  then have ne: "update_fields u \<noteq> []" by auto
  let ?f = "\<lambda>r. case assign_all (date_in (db w)) (update_fields u) r of
                   Inl e \<Rightarrow> Inl e
                 | Inr r' \<Rightarrow> Inr (r'\<lparr>p_updated_at := current_timestamp w\<rparr>)"
  have ff: "\<exists>e. ?f r = Inl e" for r
  proof -
    obtain e where "assign_all (date_in (db w)) (update_fields u) r = Inl e"
      using assign_all_null [OF col] by blast
    then show ?thesis by simp
  qed
  from update_where_id_fails [of pid "patients (db w)" ?f, OF _ ff] assms(2)
  obtain e where "update_where_id ?f pid (patients (db w)) = Inl e"
    by (auto simp: select_patient_def)
  then have u: "update_patients (current_timestamp w) (update_fields u) pid (db w) = Inl e"
    by (simp add: update_patients_def)
  obtain ok w2 where c: "connect w = (ok, w2)" "db w2 = db w" by (rule connect_cases)
  show ?thesis
    using assms(1,2) c u ne
    by (auto simp: patch_patient_def get_db_connection_def db_reachable_def execute_def)
qed

lemma update_fields_summary_null:
  "update_fields summary_null = [(''medical_summary'', None)]"
  by (simp add: update_fields_def dict_exclude_unset_def item_def summary_null_def
      no_fields_def)

lemma patch_summary_null:
  assumes "db_reachable w" "select_patient (db w) pid = Some r"
  shows "fst (patch_patient w pid summary_null) = Inr ''Paciente actualizado parcialmente''
    \<and> select_patient (db (snd (patch_patient w pid summary_null))) pid
        = Some (r\<lparr>p_medical_summary := None, p_updated_at := current_timestamp w\<rparr>)"
  using patch_total [OF assms, of summary_null "\<lambda>r. r\<lparr>p_medical_summary := None\<rparr>"]
  by (simp add: update_fields_summary_null assign_patient_column_def)

lemmas null_eval = patch_eval PATCH_Patient_def PatientUpdate_errors_def
  PatientUpdate_validate_gender_def field_errors_def gender_null_def summary_null_def

text \<open>
  Claim C10, as stated, fails: not every field set to \<open>null\<close> ends as a storage error.
  \<open>medical_summary\<close> has no \<open>NOT NULL\<close> constraint, so a body that sets it to \<open>null\<close>
  passes validation, the \<open>UPDATE\<close> stores the \<open>NULL\<close> and the request answers 200.
\<close>

theorem null_summary_counterexample:
  "PatientUpdate_errors summary_null = []
   \<and> pu_medical_summary summary_null = Some None
   \<and> PATCH_Patient (sample_world sample_db) ''p1'' summary_null =
       (Inr ''Paciente actualizado parcialmente'',
        sample_world
          \<lparr>patients = [sample_row\<lparr>p_medical_summary := None, p_updated_at := 20\<rparr>],
           observations = [],
           logs = [\<lparr>l_id = 1, l_timestamp = 21, l_action = ''PATCH'',
                    l_resource = ''Patient'', l_resource_id = ''p1''\<rparr>],
           logs_id_seq = 1, date_in = iso_date_in\<rparr>)
   \<and> response_status (fst (PATCH_Patient (sample_world sample_db) ''p1'' summary_null)) = 200"
  by (simp add: null_eval)

text \<open>
  Claim C10, amended to the four columns that are \<open>NOT NULL\<close>. A patch body that sets a
  field to \<open>null\<close> passes validation: the gender validator returns a \<open>null\<close> gender as
  it is, and no other field of a partial payload has a validator, so the errors of a
  body do not depend on its \<open>birthDate\<close>, \<open>family_name\<close>, \<open>given_name\<close> or
  \<open>medical_summary\<close>. When such a body passes validation, the patient is stored, the
  database is reachable and one of \<open>family_name\<close>, \<open>given_name\<close>, \<open>gender\<close>,
  \<open>birthDate\<close> is \<open>null\<close>, the \<open>UPDATE\<close> is attempted and fails on a constraint; the
  request ends with status 500 and the detail of a database error, not with a
  validation error, and the tables are unchanged. A body that sets only
  \<open>medical_summary\<close> to \<open>null\<close> succeeds instead, on every stored patient when the
  database is reachable, and stores the \<open>NULL\<close>.
\<close>

theorem null_field_is_a_storage_error:
  "PatientUpdate_validate_gender None = Inr None
   \<and> PatientUpdate_errors (u\<lparr>pu_gender := Some None\<rparr>) = []
   \<and> PatientUpdate_errors
        (u\<lparr>pu_birthDate := b, pu_family_name := f, pu_given_name := g,
           pu_medical_summary := s\<rparr>)
       = PatientUpdate_errors u
   \<and> (db_reachable w \<and> select_patient (db w) pid \<noteq> None
   \<and> PatientUpdate_errors u = []
      \<and> (pu_family_name u = Some None \<or> pu_given_name u = Some None
         \<or> pu_gender u = Some None \<or> pu_birthDate u = Some None) \<longrightarrow>
      (\<exists>e. fst (PATCH_Patient w pid u)
              = Inl (HTTPException 500 (''Error de base de datos: '' @ str_pg e)))
      \<and> response_status (fst (PATCH_Patient w pid u)) = 500
      \<and> db (snd (PATCH_Patient w pid u)) = db w)
   \<and> (db_reachable w \<and> select_patient (db w) pid = Some r \<longrightarrow>
        fst (PATCH_Patient w pid summary_null) = Inr ''Paciente actualizado parcialmente''
        \<and> select_patient (db (snd (PATCH_Patient w pid summary_null))) pid
            = Some (r\<lparr>p_medical_summary := None, p_updated_at := current_timestamp w\<rparr>))"
proof (intro conjI impI)
  show "PatientUpdate_validate_gender None = Inr None"
    by (simp add: PatientUpdate_validate_gender_def)
  show "PatientUpdate_errors (u\<lparr>pu_gender := Some None\<rparr>) = []"
    by (simp add: PatientUpdate_errors_def PatientUpdate_validate_gender_def field_errors_def)
  show "PatientUpdate_errors
        (u\<lparr>pu_birthDate := b, pu_family_name := f, pu_given_name := g,
           pu_medical_summary := s\<rparr>)
       = PatientUpdate_errors u"
    by (simp add: PatientUpdate_errors_def)
next
  assume a: "db_reachable w \<and> select_patient (db w) pid \<noteq> None \<and> PatientUpdate_errors u = []
      \<and> (pu_family_name u = Some None \<or> pu_given_name u = Some None
         \<or> pu_gender u = Some None \<or> pu_birthDate u = Some None)"
  then obtain e w1 where
    p: "patch_patient w pid u
          = (Inl (HTTPException 500 (''Error de base de datos: '' @ str_pg e)), w1)"
      "db w1 = db w"
    using patch_null_fails [of w pid u] by blast
  with a have q: "PATCH_Patient w pid u
          = (Inl (HTTPException 500 (''Error de base de datos: '' @ str_pg e)), w1)"
    by (simp add: PATCH_Patient_def)
  show "\<exists>e. fst (PATCH_Patient w pid u)
              = Inl (HTTPException 500 (''Error de base de datos: '' @ str_pg e))"
    using q by auto
  show "response_status (fst (PATCH_Patient w pid u)) = 500"
    using q by (simp add: response_status_def)
  show "db (snd (PATCH_Patient w pid u)) = db w"
    using q p(2) by simp
next
  assume a: "db_reachable w \<and> select_patient (db w) pid = Some r"
  have q: "PATCH_Patient w pid summary_null = patch_patient w pid summary_null"
    by (simp add: PATCH_Patient_def PatientUpdate_errors_def summary_null_def no_fields_def)
  from a patch_summary_null [of w pid r]
  show "fst (PATCH_Patient w pid summary_null) = Inr ''Paciente actualizado parcialmente''"
    and "select_patient (db (snd (PATCH_Patient w pid summary_null))) pid
            = Some (r\<lparr>p_medical_summary := None, p_updated_at := current_timestamp w\<rparr>)"
    by (simp_all add: q)
qed

theorem null_field_is_a_storage_error_witness:
  "db_reachable (sample_world sample_db)
   \<and> select_patient (db (sample_world sample_db)) ''p1'' = Some sample_row
   \<and> PatientUpdate_errors gender_null = []
   \<and> pu_gender gender_null = Some None
   \<and> PATCH_Patient (sample_world sample_db) ''p1'' gender_null =
       (Inl (HTTPException 500
          ''Error de base de datos: null value in column gender violates not-null constraint''),
        sample_world sample_db)
   \<and> response_status (fst (PATCH_Patient (sample_world sample_db) ''p1'' gender_null)) = 500
   \<and> select_patient (db (snd (PATCH_Patient (sample_world sample_db) ''p1'' summary_null))) ''p1''
       = Some (sample_row\<lparr>p_medical_summary := None, p_updated_at := 20\<rparr>)"
  using null_field_is_a_storage_error [of gender_null None None None None
      "sample_world sample_db" "''p1''" sample_row]
  by (simp add: null_eval)

subsection \<open>The audit log\<close>

lemma connect_again:
  "fst (connect ((snd (connect w))\<lparr>db := d\<rparr>)) = log_reachable w"
  by (simp add: connect_def log_reachable_def split: list.splits)

lemma mutation_then_log_Inl:
  assumes "(case get_db_connection w B of
              (Inl e, w') \<Rightarrow> (Inl e, w')
            | (Inr x, w') \<Rightarrow> (Inr (resp x), log_event w' A R rid)) = (Inl e, w')"
  shows "db w' = db w"
proof -
  obtain res w1 where g: "get_db_connection w B = (res, w1)"
    by (cases "get_db_connection w B")
  with assms have "res = Inl e" "w' = w1" by (auto split: sum.splits)
  with g get_db_connection_Inl [of w B e w1] show ?thesis by simp
qed

lemma mutation_then_log_Inr:
  assumes "(case get_db_connection w B of
              (Inl e, w') \<Rightarrow> (Inl e, w')
            | (Inr x, w') \<Rightarrow> (Inr (resp x), log_event w' A R rid)) = (Inr y, w')"
  shows "db_reachable w \<and> (\<exists>x dc. B (db w) = Inr (x, dc) \<and> y = resp x)"
proof -
  obtain res w1 where g: "get_db_connection w B = (res, w1)"
    by (cases "get_db_connection w B")
  with assms obtain x where "res = Inr x" "y = resp x" by (auto split: sum.splits)
  with g get_db_connection_Inr [of w B x w1] show ?thesis by auto
qed

lemma log_event_logs:
  assumes "DATABASE_URL w \<noteq> None" "DATABASE_URL w \<noteq> Some []" "length a \<le> 20" "length r \<le> 50"
  shows "patients (db (log_event w a r i)) = patients (db w)
    \<and> observations (db (log_event w a r i)) = observations (db w)
    \<and> logs (db (log_event w a r i)) =
        (if fst (connect w) \<and> fits 50 i
         then logs (db w) @ [log_entry (db w) (utcnow w) a r (take 50 i)] else logs (db w))"
proof -
  obtain ok w2 where c: "connect w = (ok, w2)" "db w2 = db w" by (rule connect_cases)
  show ?thesis
    using assms c
    by (auto simp: log_event_def get_db_connection_def execute_def insert_log_def
        sql_then_def varchar_def fits_def log_entry_def split: bool.splits)
qed

lemma mutation_then_log_commit:
  assumes "db_reachable w" "B (db w) = Inr (x, dc)" "logs dc = logs (db w)"
    "logs_id_seq dc = logs_id_seq (db w)" "length A \<le> 20" "length R \<le> 50"
    "H = (case get_db_connection w B of
              (Inl e, w') \<Rightarrow> (Inl e, w')
            | (Inr x, w') \<Rightarrow> (Inr (resp x), log_event w' A R rid))"
  shows "fst H = Inr (resp x) \<and> after_commit w dc (snd H) A R rid"
proof -
  obtain ok w2 where c: "connect w = (ok, w2)" "db w2 = db w" "utcnow w2 = utcnow w"
    "DATABASE_URL w2 = DATABASE_URL w"
    by (rule connect_cases)
  let ?w1 = "w2\<lparr>db := dc\<rparr>"
  have H: "H = (Inr (resp x), log_event ?w1 A R rid)"
    using assms(1,2,7) c by (simp add: get_db_connection_def db_reachable_def)
  have e: "log_entry (db ?w1) (utcnow ?w1) A R (take 50 rid)
      = log_entry (db w) (utcnow w) A R (take 50 rid)"
    using assms(4) c by (simp add: log_entry_def)
  have r: "fst (connect ?w1) = log_reachable w"
    using c connect_again [where w = w and d = dc] by simp
  have u: "DATABASE_URL ?w1 \<noteq> None" "DATABASE_URL ?w1 \<noteq> Some []"
    using assms(1) c by (simp_all add: db_reachable_def)
  show ?thesis
    using log_event_logs [OF u assms(5,6), of rid] assms(3) e r
    by (simp add: H after_commit_def)
qed

lemma assign_all_keeps_id:
  assumes "assign_all cast sets r = Inr r'" "''id'' \<notin> fst ` set sets"
  shows "p_id r' = p_id r"
  using assms
proof (induction sets arbitrary: r)
  case Nil
  then show ?case by simp
next
  case (Cons a sets)
  obtain c v where a: "a = (c, v)" by (cases a)
  with Cons.prems obtain r1 where 1: "assign_patient_column cast c v r = Inr r1"
    "assign_all cast sets r1 = Inr r'" "c \<noteq> ''id''"
    by (auto split: sum.splits)
  from 1(1,3) have "p_id r1 = p_id r"
    by (auto simp: assign_patient_column_def varchar_def date_column_def
        split: if_splits option.splits sum.splits)
  with Cons.IH [OF 1(2)] Cons.prems(2) show ?case by simp
qed

lemma insert_patient_Inr:
  assumes "insert_patient now ((''id'', Some i) # patient_columns p) d = Inr d'"
  shows "logs d' = logs d \<and> logs_id_seq d' = logs_id_seq d
    \<and> observations d' = observations d
    \<and> fits 50 i \<and> select_patient d' (take 50 i) \<noteq> None"
proof -
  from assms obtain r0 r where
    0: "assign_patient_column (date_in d) ''id'' (Some i) \<lparr>p_id = [], p_family_name = [], p_given_name = [],
          p_gender = [], p_birth_date = (0, 0, 0), p_medical_summary = None,
          p_created_at = now, p_updated_at = now\<rparr> = Inr r0" and
    1: "assign_all (date_in d) (patient_columns p) r0 = Inr r" and
    2: "d' = d\<lparr>patients := patients d @ [r]\<rparr>"
    by (auto simp: insert_patient_def split: sum.splits if_splits)
  from 0 have i: "fits 50 i" "p_id r0 = take 50 i"
    by (auto simp: assign_patient_column_def varchar_def split: if_splits)
  from assign_all_keeps_id [OF 1] have "p_id r = p_id r0"
    by (simp add: patient_columns_def)
  with i 2 show ?thesis
    by (auto simp: select_patient_def find_None_iff)
qed

lemma insert_observation_Inr:
  assumes "insert_observation now oid pid a b c v u dt d = Inr d'"
  shows "logs d' = logs d \<and> logs_id_seq d' = logs_id_seq d \<and> patients d' = patients d
    \<and> fits 50 oid \<and> select_patient d (take 50 pid) \<noteq> None
    \<and> (\<exists>ob. observations d' = observations d @ [ob] \<and> o_id ob = take 50 oid
    \<and> o_patient_id ob = take 50 pid)"
  using assms
  by (auto simp: insert_observation_def sql_then_def varchar_def date_column_def
      split: if_splits option.splits)

lemma create_patient_audit:
  "(fst (create_patient w p) = Inl e \<longrightarrow> db (snd (create_patient w p)) = db w)
   \<and> (fst (create_patient w p) = Inr y \<longrightarrow>
        db_reachable w \<and> select_patient (db w) (pt_id p) = None
        \<and> (\<exists>dc. insert_patient (current_timestamp w) ((''id'', Some (pt_id p)) # patient_columns p) (db w) = Inr dc))
   \<and> (db_reachable w \<and> select_patient (db w) (pt_id p) = None
       \<and> insert_patient (current_timestamp w) ((''id'', Some (pt_id p)) # patient_columns p) (db w) = Inr dc \<longrightarrow>
        fst (create_patient w p) = Inr (''Paciente creado correctamente'', pt_id p)
        \<and> after_commit w dc (snd (create_patient w p)) ''CREATE'' ''Patient'' (pt_id p))"
proof (intro conjI impI)
  assume "fst (create_patient w p) = Inl e"
  then have "create_patient w p = (Inl e, snd (create_patient w p))"
    by (metis prod.collapse)
  then show "db (snd (create_patient w p)) = db w"
    unfolding create_patient_def patient_columns_def by (rule mutation_then_log_Inl)
next
  assume "fst (create_patient w p) = Inr y"
  then have "create_patient w p = (Inr y, snd (create_patient w p))"
    by (metis prod.collapse)
  from mutation_then_log_Inr [OF this [unfolded create_patient_def]]
  show "db_reachable w" and "select_patient (db w) (pt_id p) = None" and "\<exists>dc. insert_patient (current_timestamp w) ((''id'', Some (pt_id p)) # patient_columns p) (db w) = Inr dc"
    by (auto simp: execute_def patient_columns_def split: if_splits sum.splits)
next
  assume a: "db_reachable w \<and> select_patient (db w) (pt_id p) = None
       \<and> insert_patient (current_timestamp w) ((''id'', Some (pt_id p)) # patient_columns p) (db w) = Inr dc"
  then have st: "insert_patient (current_timestamp w) ((''id'', Some (pt_id p)) # patient_columns p) (db w) = Inr dc" by simp
  have l: "logs dc = logs (db w)" "logs_id_seq dc = logs_id_seq (db w)"
    using insert_patient_Inr [OF st] by simp_all
  have "fst (create_patient w p) = Inr (''Paciente creado correctamente'', pt_id p)
        \<and> after_commit w dc (snd (create_patient w p)) ''CREATE'' ''Patient'' (pt_id p)"
    using a by (intro mutation_then_log_commit [OF _ _ l _ _ create_patient_def])
      (auto simp: execute_def patient_columns_def)
  then show "fst (create_patient w p) = Inr (''Paciente creado correctamente'', pt_id p)"
    and "after_commit w dc (snd (create_patient w p)) ''CREATE'' ''Patient'' (pt_id p)"
    by simp_all
qed

lemma update_patient_audit:
  "(fst (update_patient w pid p) = Inl e \<longrightarrow> db (snd (update_patient w pid p)) = db w)
   \<and> (fst (update_patient w pid p) = Inr y \<longrightarrow>
        db_reachable w \<and> select_patient (db w) pid \<noteq> None
        \<and> (\<exists>dc. update_patients (current_timestamp w) (patient_columns p) pid (db w) = Inr dc))
   \<and> (db_reachable w \<and> select_patient (db w) pid \<noteq> None
       \<and> update_patients (current_timestamp w) (patient_columns p) pid (db w) = Inr dc \<longrightarrow>
        fst (update_patient w pid p) = Inr ''Paciente actualizado completamente''
        \<and> after_commit w dc (snd (update_patient w pid p)) ''PUT'' ''Patient'' (pid))"
proof (intro conjI impI)
  assume "fst (update_patient w pid p) = Inl e"
  then have "update_patient w pid p = (Inl e, snd (update_patient w pid p))"
    by (metis prod.collapse)
  then show "db (snd (update_patient w pid p)) = db w"
    unfolding update_patient_def patient_columns_def by (rule mutation_then_log_Inl)
next
  assume "fst (update_patient w pid p) = Inr y"
  then have "update_patient w pid p = (Inr y, snd (update_patient w pid p))"
    by (metis prod.collapse)
  from mutation_then_log_Inr [OF this [unfolded update_patient_def]]
  show "db_reachable w" and "select_patient (db w) pid \<noteq> None" and "\<exists>dc. update_patients (current_timestamp w) (patient_columns p) pid (db w) = Inr dc"
    by (auto simp: execute_def patient_columns_def split: if_splits sum.splits)
next
  assume a: "db_reachable w \<and> select_patient (db w) pid \<noteq> None
       \<and> update_patients (current_timestamp w) (patient_columns p) pid (db w) = Inr dc"
  then have st: "update_patients (current_timestamp w) (patient_columns p) pid (db w) = Inr dc" by simp
  have l: "logs dc = logs (db w)" "logs_id_seq dc = logs_id_seq (db w)"
    using update_patients_tables [OF st] by simp_all
  have "fst (update_patient w pid p) = Inr ''Paciente actualizado completamente''
        \<and> after_commit w dc (snd (update_patient w pid p)) ''PUT'' ''Patient'' (pid)"
    using a by (intro mutation_then_log_commit [OF _ _ l _ _ update_patient_def])
      (auto simp: execute_def patient_columns_def)
  then show "fst (update_patient w pid p) = Inr ''Paciente actualizado completamente''"
    and "after_commit w dc (snd (update_patient w pid p)) ''PUT'' ''Patient'' (pid)"
    by simp_all
qed

lemma patch_patient_audit:
  "(fst (patch_patient w pid u) = Inl e \<longrightarrow> db (snd (patch_patient w pid u)) = db w)
   \<and> (fst (patch_patient w pid u) = Inr y \<longrightarrow>
        db_reachable w \<and> select_patient (db w) pid \<noteq> None \<and> update_fields u \<noteq> []
        \<and> (\<exists>dc. update_patients (current_timestamp w) (update_fields u) pid (db w) = Inr dc))
   \<and> (db_reachable w \<and> select_patient (db w) pid \<noteq> None
   \<and> update_fields u \<noteq> []
       \<and> update_patients (current_timestamp w) (update_fields u) pid (db w) = Inr dc \<longrightarrow>
        fst (patch_patient w pid u) = Inr ''Paciente actualizado parcialmente''
        \<and> after_commit w dc (snd (patch_patient w pid u)) ''PATCH'' ''Patient'' (pid))"
proof (intro conjI impI)
  assume "fst (patch_patient w pid u) = Inl e"
  then have "patch_patient w pid u = (Inl e, snd (patch_patient w pid u))"
    by (metis prod.collapse)
  then show "db (snd (patch_patient w pid u)) = db w"
    unfolding patch_patient_def patient_columns_def by (rule mutation_then_log_Inl)
next
  assume "fst (patch_patient w pid u) = Inr y"
  then have "patch_patient w pid u = (Inr y, snd (patch_patient w pid u))"
    by (metis prod.collapse)
  from mutation_then_log_Inr [OF this [unfolded patch_patient_def]]
  show "db_reachable w" and "select_patient (db w) pid \<noteq> None" and "update_fields u \<noteq> []" and "\<exists>dc. update_patients (current_timestamp w) (update_fields u) pid (db w) = Inr dc"
    by (auto simp: execute_def patient_columns_def split: if_splits sum.splits)
next
  assume a: "db_reachable w \<and> select_patient (db w) pid \<noteq> None \<and> update_fields u \<noteq> []
       \<and> update_patients (current_timestamp w) (update_fields u) pid (db w) = Inr dc"
  then have st: "update_patients (current_timestamp w) (update_fields u) pid (db w) = Inr dc" by simp
  have l: "logs dc = logs (db w)" "logs_id_seq dc = logs_id_seq (db w)"
    using update_patients_tables [OF st] by simp_all
  have "fst (patch_patient w pid u) = Inr ''Paciente actualizado parcialmente''
        \<and> after_commit w dc (snd (patch_patient w pid u)) ''PATCH'' ''Patient'' (pid)"
    using a by (intro mutation_then_log_commit [OF _ _ l _ _ patch_patient_def])
      (auto simp: execute_def patient_columns_def)
  then show "fst (patch_patient w pid u) = Inr ''Paciente actualizado parcialmente''"
    and "after_commit w dc (snd (patch_patient w pid u)) ''PATCH'' ''Patient'' (pid)"
    by simp_all
qed

lemma delete_patient_audit:
  "(fst (delete_patient w pid) = Inl e \<longrightarrow> db (snd (delete_patient w pid)) = db w)
   \<and> (fst (delete_patient w pid) = Inr y \<longrightarrow>
        db_reachable w \<and> select_patient (db w) pid \<noteq> None
        \<and> (\<exists>dc. delete_patients pid (db w) = dc))
   \<and> (db_reachable w \<and> select_patient (db w) pid \<noteq> None
       \<and> delete_patients pid (db w) = dc \<longrightarrow>
        fst (delete_patient w pid) = Inr (''Paciente '' @ quoted pid @ '' eliminado'',
            length (filter (\<lambda>ob. o_patient_id ob = pid) (observations (db w))))
        \<and> after_commit w dc (snd (delete_patient w pid)) ''DELETE'' ''Patient'' (pid))"
proof (intro conjI impI)
  assume "fst (delete_patient w pid) = Inl e"
  then have "delete_patient w pid = (Inl e, snd (delete_patient w pid))"
    by (metis prod.collapse)
  then show "db (snd (delete_patient w pid)) = db w"
    unfolding delete_patient_def patient_columns_def by (rule mutation_then_log_Inl)
next
  assume "fst (delete_patient w pid) = Inr y"
  then have "delete_patient w pid = (Inr y, snd (delete_patient w pid))"
    by (metis prod.collapse)
  from mutation_then_log_Inr [OF this [unfolded delete_patient_def]]
  show "db_reachable w" and "select_patient (db w) pid \<noteq> None" and "\<exists>dc. delete_patients pid (db w) = dc"
    by (auto simp: execute_def patient_columns_def split: if_splits sum.splits)
next
  assume a: "db_reachable w \<and> select_patient (db w) pid \<noteq> None
       \<and> delete_patients pid (db w) = dc"
  then have st: "delete_patients pid (db w) = dc" by simp
  have l: "logs dc = logs (db w)" "logs_id_seq dc = logs_id_seq (db w)"
    using st by (auto simp: delete_patients_def)
  have "fst (delete_patient w pid) = Inr (''Paciente '' @ quoted pid @ '' eliminado'',
            length (filter (\<lambda>ob. o_patient_id ob = pid) (observations (db w))))
        \<and> after_commit w dc (snd (delete_patient w pid)) ''DELETE'' ''Patient'' (pid)"
    using a by (intro mutation_then_log_commit [OF _ _ l _ _ delete_patient_def])
      (auto simp: execute_def patient_columns_def)
  then show "fst (delete_patient w pid) = Inr (''Paciente '' @ quoted pid @ '' eliminado'',
            length (filter (\<lambda>ob. o_patient_id ob = pid) (observations (db w))))"
    and "after_commit w dc (snd (delete_patient w pid)) ''DELETE'' ''Patient'' (pid)"
    by simp_all
qed

lemma create_observation_audit:
  "(fst (create_observation w ob) = Inl e \<longrightarrow> db (snd (create_observation w ob)) = db w)
   \<and> (fst (create_observation w ob) = Inr y \<longrightarrow>
        db_reachable w \<and> select_patient (db w) (ob_patient_id ob) \<noteq> None
        \<and> (\<exists>dc. insert_observation (current_timestamp w) (uuid4 w) (ob_patient_id ob) (ob_category ob)
          (ob_code ob) (ob_display ob) (ob_value ob) (ob_unit ob) (ob_date ob) (db w) = Inr dc))
   \<and> (db_reachable w \<and> select_patient (db w) (ob_patient_id ob) \<noteq> None
       \<and> insert_observation (current_timestamp w) (uuid4 w) (ob_patient_id ob) (ob_category ob)
          (ob_code ob) (ob_display ob) (ob_value ob) (ob_unit ob) (ob_date ob) (db w) = Inr dc \<longrightarrow>
        fst (create_observation w ob) = Inr (''Observaci'' @ [CHR 0xF3] @ ''n registrada correctamente'', uuid4 w)
        \<and> after_commit w dc (snd (create_observation w ob)) ''CREATE'' ''Observation'' (uuid4 w))"
proof (intro conjI impI)
  assume "fst (create_observation w ob) = Inl e"
  then have "create_observation w ob = (Inl e, snd (create_observation w ob))"
    by (metis prod.collapse)
  then show "db (snd (create_observation w ob)) = db w"
    unfolding create_observation_def patient_columns_def by (rule mutation_then_log_Inl)
next
  assume "fst (create_observation w ob) = Inr y"
  then have "create_observation w ob = (Inr y, snd (create_observation w ob))"
    by (metis prod.collapse)
  from mutation_then_log_Inr [OF this [unfolded create_observation_def]]
  show "db_reachable w" and "select_patient (db w) (ob_patient_id ob) \<noteq> None" and "\<exists>dc. insert_observation (current_timestamp w) (uuid4 w) (ob_patient_id ob) (ob_category ob)
          (ob_code ob) (ob_display ob) (ob_value ob) (ob_unit ob) (ob_date ob) (db w) = Inr dc"
    by (auto simp: execute_def patient_columns_def split: if_splits sum.splits)
next
  assume a: "db_reachable w \<and> select_patient (db w) (ob_patient_id ob) \<noteq> None
       \<and> insert_observation (current_timestamp w) (uuid4 w) (ob_patient_id ob) (ob_category ob)
          (ob_code ob) (ob_display ob) (ob_value ob) (ob_unit ob) (ob_date ob) (db w) = Inr dc"
  then have st: "insert_observation (current_timestamp w) (uuid4 w) (ob_patient_id ob) (ob_category ob)
          (ob_code ob) (ob_display ob) (ob_value ob) (ob_unit ob) (ob_date ob) (db w) = Inr dc" by simp
  have l: "logs dc = logs (db w)" "logs_id_seq dc = logs_id_seq (db w)"
    using insert_observation_Inr [OF st] by simp_all
  have "fst (create_observation w ob) = Inr (''Observaci'' @ [CHR 0xF3] @ ''n registrada correctamente'', uuid4 w)
        \<and> after_commit w dc (snd (create_observation w ob)) ''CREATE'' ''Observation'' (uuid4 w)"
    using a by (intro mutation_then_log_commit [OF _ _ l _ _ create_observation_def])
      (auto simp: execute_def patient_columns_def)
  then show "fst (create_observation w ob) = Inr (''Observaci'' @ [CHR 0xF3] @ ''n registrada correctamente'', uuid4 w)"
    and "after_commit w dc (snd (create_observation w ob)) ''CREATE'' ''Observation'' (uuid4 w)"
    by simp_all
qed

text \<open>
  Claim C3. For each of \<open>create_patient\<close>, \<open>update_patient\<close>, \<open>patch_patient\<close>,
  \<open>delete_patient\<close> and \<open>create_observation\<close>: (1) when the handler fails, no table
  changes, so nothing is logged; (2) the handler succeeds only when the database is
  reachable, its existence check passes and its statement succeeds; (3) whenever that
  is so, the handler does succeed, whatever happens to the log: the patients and
  observations are the ones its transaction committed, and the log has gained the entry
  (action, resource kind, resource id) stamped \<open>utcnow\<close>, except when the log's own
  connection fails or the id does not fit the log's column; then the log is unchanged,
  and the response and the committed tables are the same.
\<close>

theorem audit_log_after_every_success:
  "((fst (create_patient w p) = Inl e \<longrightarrow> db (snd (create_patient w p)) = db w)
   \<and> (fst (create_patient w p) = Inr ya \<longrightarrow>
        db_reachable w \<and> select_patient (db w) (pt_id p) = None
        \<and> (\<exists>dc. insert_patient (current_timestamp w) ((''id'', Some (pt_id p)) # patient_columns p) (db w) = Inr dc))
   \<and> (db_reachable w \<and> select_patient (db w) (pt_id p) = None
       \<and> insert_patient (current_timestamp w) ((''id'', Some (pt_id p)) # patient_columns p) (db w) = Inr dc \<longrightarrow>
        fst (create_patient w p) = Inr (''Paciente creado correctamente'', pt_id p)
        \<and> after_commit w dc (snd (create_patient w p)) ''CREATE'' ''Patient'' (pt_id p)))
 \<and> ((fst (update_patient w pid p) = Inl e \<longrightarrow> db (snd (update_patient w pid p)) = db w)
   \<and> (fst (update_patient w pid p) = Inr yb \<longrightarrow>
        db_reachable w \<and> select_patient (db w) pid \<noteq> None
        \<and> (\<exists>dc. update_patients (current_timestamp w) (patient_columns p) pid (db w) = Inr dc))
   \<and> (db_reachable w \<and> select_patient (db w) pid \<noteq> None
       \<and> update_patients (current_timestamp w) (patient_columns p) pid (db w) = Inr dc \<longrightarrow>
        fst (update_patient w pid p) = Inr ''Paciente actualizado completamente''
        \<and> after_commit w dc (snd (update_patient w pid p)) ''PUT'' ''Patient'' (pid)))
 \<and> ((fst (patch_patient w pid u) = Inl e \<longrightarrow> db (snd (patch_patient w pid u)) = db w)
   \<and> (fst (patch_patient w pid u) = Inr yc \<longrightarrow>
        db_reachable w \<and> select_patient (db w) pid \<noteq> None \<and> update_fields u \<noteq> []
        \<and> (\<exists>dc. update_patients (current_timestamp w) (update_fields u) pid (db w) = Inr dc))
   \<and> (db_reachable w \<and> select_patient (db w) pid \<noteq> None
   \<and> update_fields u \<noteq> []
       \<and> update_patients (current_timestamp w) (update_fields u) pid (db w) = Inr dc \<longrightarrow>
        fst (patch_patient w pid u) = Inr ''Paciente actualizado parcialmente''
        \<and> after_commit w dc (snd (patch_patient w pid u)) ''PATCH'' ''Patient'' (pid)))
 \<and> ((fst (delete_patient w pid) = Inl e \<longrightarrow> db (snd (delete_patient w pid)) = db w)
   \<and> (fst (delete_patient w pid) = Inr yd \<longrightarrow>
        db_reachable w \<and> select_patient (db w) pid \<noteq> None
        \<and> (\<exists>dc. delete_patients pid (db w) = dc))
   \<and> (db_reachable w \<and> select_patient (db w) pid \<noteq> None
       \<and> delete_patients pid (db w) = dc \<longrightarrow>
        fst (delete_patient w pid) = Inr (''Paciente '' @ quoted pid @ '' eliminado'',
            length (filter (\<lambda>ob. o_patient_id ob = pid) (observations (db w))))
        \<and> after_commit w dc (snd (delete_patient w pid)) ''DELETE'' ''Patient'' (pid)))
 \<and> ((fst (create_observation w ob) = Inl e \<longrightarrow> db (snd (create_observation w ob)) = db w)
   \<and> (fst (create_observation w ob) = Inr ye \<longrightarrow>
        db_reachable w \<and> select_patient (db w) (ob_patient_id ob) \<noteq> None
        \<and> (\<exists>dc. insert_observation (current_timestamp w) (uuid4 w) (ob_patient_id ob) (ob_category ob)
          (ob_code ob) (ob_display ob) (ob_value ob) (ob_unit ob) (ob_date ob) (db w) = Inr dc))
   \<and> (db_reachable w \<and> select_patient (db w) (ob_patient_id ob) \<noteq> None
       \<and> insert_observation (current_timestamp w) (uuid4 w) (ob_patient_id ob) (ob_category ob)
          (ob_code ob) (ob_display ob) (ob_value ob) (ob_unit ob) (ob_date ob) (db w) = Inr dc \<longrightarrow>
        fst (create_observation w ob) = Inr (''Observaci'' @ [CHR 0xF3] @ ''n registrada correctamente'', uuid4 w)
        \<and> after_commit w dc (snd (create_observation w ob)) ''CREATE'' ''Observation'' (uuid4 w)))"
  by (rule conjI [OF create_patient_audit conjI [OF update_patient_audit
        conjI [OF patch_patient_audit conjI [OF delete_patient_audit create_observation_audit]]]])

lemmas iso_eval = fromisoformat_py37_def parse_isoformat_date_def number_def date_eval

lemmas create_eval = sample_defs create_patient_def insert_patient_def patient_columns_def
  assign_patient_column_def varchar_def iso_eval log_event_def insert_log_def sql_then_def
  db_reachable_def log_reachable_def

theorem audit_log_after_every_success_witness:
  "db_reachable (sample_world (initialize_db iso_date_in))
   \<and> select_patient (db (sample_world (initialize_db iso_date_in))) (pt_id sample_patient) = None
   \<and> insert_patient (current_timestamp (sample_world (initialize_db iso_date_in)))
        ((''id'', Some (pt_id sample_patient)) # patient_columns sample_patient)
        (db (sample_world (initialize_db iso_date_in)))
      = Inr \<lparr>patients = [sample_row\<lparr>p_created_at := 20, p_updated_at := 20\<rparr>],
             observations = [], logs = [], logs_id_seq = 0, date_in = iso_date_in\<rparr>
   \<and> fst (create_patient (sample_world (initialize_db iso_date_in)) sample_patient)
      = Inr (''Paciente creado correctamente'', ''p1'')
   \<and> db (snd (create_patient (sample_world (initialize_db iso_date_in)) sample_patient))
      = \<lparr>patients = [sample_row\<lparr>p_created_at := 20, p_updated_at := 20\<rparr>],
         observations = [],
         logs = [\<lparr>l_id = 1, l_timestamp = 21, l_action = ''CREATE'', l_resource = ''Patient'',
                  l_resource_id = ''p1''\<rparr>],
         logs_id_seq = 1, date_in = iso_date_in\<rparr>
   \<and> create_patient ((sample_world (initialize_db iso_date_in))\<lparr>connect_faults := [False, True]\<rparr>)
        sample_patient
      = (Inr (''Paciente creado correctamente'', ''p1''),
         sample_world \<lparr>patients = [sample_row\<lparr>p_created_at := 20, p_updated_at := 20\<rparr>],
                       observations = [], logs = [], logs_id_seq = 0, date_in = iso_date_in\<rparr>)
   \<and> fst (create_patient (sample_world sample_db) sample_patient)
      = Inl (HTTPException 500
               (''Error inesperado: 400: El paciente '' @ quoted ''p1'' @ '' ya existe''))
   \<and> db (snd (create_patient (sample_world sample_db) sample_patient)) = sample_db"
proof -
  let ?W = "sample_world (initialize_db iso_date_in)"
  let ?d1 = "\<lparr>patients = [sample_row\<lparr>p_created_at := 20, p_updated_at := 20\<rparr>],
             observations = [], logs = [], logs_id_seq = 0, date_in = iso_date_in\<rparr>"
  have h: "db_reachable ?W" "select_patient (db ?W) (pt_id sample_patient) = None"
    "insert_patient (current_timestamp ?W)
        ((''id'', Some (pt_id sample_patient)) # patient_columns sample_patient) (db ?W)
      = Inr ?d1"
    by (simp_all add: create_eval)
  note t = audit_log_after_every_success [where w = ?W and p = sample_patient and dc = ?d1,
      THEN conjunct1, THEN conjunct2, THEN conjunct2, THEN mp]
  have c: "fst (create_patient ?W sample_patient) = Inr (''Paciente creado correctamente'', ''p1'')"
    "after_commit ?W ?d1 (snd (create_patient ?W sample_patient)) ''CREATE'' ''Patient'' ''p1''"
    using t h by (simp_all add: sample_patient_def)
  have e: "db (snd (create_patient ?W sample_patient))
      = \<lparr>patients = [sample_row\<lparr>p_created_at := 20, p_updated_at := 20\<rparr>],
         observations = [],
         logs = [\<lparr>l_id = 1, l_timestamp = 21, l_action = ''CREATE'', l_resource = ''Patient'',
                  l_resource_id = ''p1''\<rparr>],
         logs_id_seq = 1, date_in = iso_date_in\<rparr>"
    by (simp add: create_eval)
  have f: "create_patient (?W\<lparr>connect_faults := [False, True]\<rparr>) sample_patient
      = (Inr (''Paciente creado correctamente'', ''p1''), sample_world ?d1)"
    by (simp add: create_eval)
  have g: "create_patient (sample_world sample_db) sample_patient
      = (Inl (HTTPException 500
               (''Error inesperado: 400: El paciente '' @ quoted ''p1'' @ '' ya existe'')),
         sample_world sample_db)"
    by (simp add: sample_defs create_patient_def)
  show ?thesis using h c(1) e f g by (simp add: sample_world_def)
qed

subsection \<open>No orphan observations\<close>

lemma select_patient_iff:
  "select_patient d q = None \<longleftrightarrow> q \<notin> p_id ` set (patients d)"
  "(\<exists>r. select_patient d q = Some r) \<longleftrightarrow> q \<in> p_id ` set (patients d)"
proof -
  show "select_patient d q = None \<longleftrightarrow> q \<notin> p_id ` set (patients d)"
    by (auto simp: select_patient_def find_None_iff)
  then show "(\<exists>r. select_patient d q = Some r) \<longleftrightarrow> q \<in> p_id ` set (patients d)"
    by (cases "select_patient d q") auto
qed

lemma no_orphans_iff:
  "no_orphans d \<longleftrightarrow> o_patient_id ` set (observations d) \<subseteq> p_id ` set (patients d)"
  by (auto simp: no_orphans_def list_all_iff select_patient_iff)

lemma update_where_id_ids:
  assumes "update_where_id f pid rs = Inr rs'" "\<And>r r'. f r = Inr r' \<Longrightarrow> p_id r' = p_id r"
  shows "map p_id rs' = map p_id rs"
  using assms(1)
proof (induction rs arbitrary: rs')
  case Nil
  then show ?case by simp
next
  case (Cons a rs)
  then show ?case
    using assms(2) [of a]
    by (auto split: sum.splits if_splits)
qed

lemma update_patients_ids:
  assumes "update_patients now sets pid d = Inr d'" "''id'' \<notin> fst ` set sets"
  shows "map p_id (patients d') = map p_id (patients d) \<and> observations d' = observations d"
proof -
  let ?f = "\<lambda>r. case assign_all (date_in d) sets r of
                   Inl e \<Rightarrow> Inl e
                 | Inr r' \<Rightarrow> Inr (r'\<lparr>p_updated_at := now\<rparr>)"
  have fid: "p_id r' = p_id r" if "?f r = Inr r'" for r r'
    using that assign_all_keeps_id [OF _ assms(2), of "date_in d" r] by (auto split: sum.splits)
  from assms(1) obtain rs where rs: "update_where_id ?f pid (patients d) = Inr rs"
    "d' = d\<lparr>patients := rs\<rparr>"
    by (auto simp: update_patients_def split: sum.splits)
  from update_where_id_ids [OF rs(1) fid] rs(2) show ?thesis by simp
qed

lemma update_patients_no_orphans:
  assumes "update_patients now sets pid d = Inr d'" "''id'' \<notin> fst ` set sets" "no_orphans d"
  shows "no_orphans d'"
proof -
  from update_patients_ids [OF assms(1,2)]
  have "p_id ` set (patients d') = p_id ` set (patients d)" "observations d' = observations d"
    by (metis set_map, simp)
  with assms(3) show ?thesis by (simp add: no_orphans_iff)
qed

lemma update_fields_columns: "''id'' \<notin> fst ` set (update_fields u)"
  by (auto simp: update_fields_items item_def split: option.splits)

lemma patient_columns_columns: "''id'' \<notin> fst ` set (patient_columns p)"
  by (simp add: patient_columns_def)

lemma insert_patient_no_orphans:
  assumes "insert_patient now sets d = Inr d'" "no_orphans d"
  shows "no_orphans d'"
proof -
  from assms(1) obtain r where "d' = d\<lparr>patients := patients d @ [r]\<rparr>"
    by (auto simp: insert_patient_def split: sum.splits if_splits)
  with assms(2) show ?thesis by (auto simp: no_orphans_iff)
qed

lemma delete_patients_no_orphans:
  assumes "no_orphans d"
  shows "no_orphans (delete_patients pid d)"
  using assms by (auto simp: no_orphans_iff delete_patients_def)

lemma insert_observation_no_orphans:
  assumes "insert_observation now oid pid a b c v u dt d = Inr d'" "no_orphans d"
  shows "no_orphans d'"
proof -
  from insert_observation_Inr [OF assms(1)] obtain ob where
    "patients d' = patients d" "select_patient d (take 50 pid) \<noteq> None"
    "observations d' = observations d @ [ob]" "o_patient_id ob = take 50 pid"
    by blast
  with assms(2) show ?thesis by (auto simp: no_orphans_iff select_patient_iff)
qed

lemma after_commit_no_orphans:
  assumes "after_commit w dc w' a r i" "no_orphans dc"
  shows "no_orphans (db w')"
  using assms by (simp add: after_commit_def no_orphans_iff)

lemma read_only:
  assumes "\<And>d. case B d of Inl e \<Rightarrow> True | Inr (x, d') \<Rightarrow> d' = d"
  shows "db (snd (get_db_connection w B)) = db w"
proof -
  obtain ok w2 where c: "connect w = (ok, w2)" "db w2 = db w" by (rule connect_cases)
  show ?thesis
    using assms [of "db w"] c
    by (auto simp: get_db_connection_def split: bool.splits sum.splits exc.splits prod.splits)
qed

lemma search_patients_db: "db (snd (search_patients w name)) = db w"
  unfolding search_patients_def by (rule read_only) simp

lemma get_observations_db: "db (snd (get_observations w pid)) = db w"
  unfolding get_observations_def by (rule read_only) simp

lemma create_patient_no_orphans:
  assumes "no_orphans (db w)"
  shows "no_orphans (db (snd (create_patient w p)))"
proof (cases "fst (create_patient w p)")
  case (Inl e)
  with create_patient_audit [of w p e] assms show ?thesis by simp
next
  case (Inr y)
  with create_patient_audit [of w p _ y] obtain dc where
    dc: "db_reachable w" "select_patient (db w) (pt_id p) = None"
      "insert_patient (current_timestamp w) ((''id'', Some (pt_id p)) # patient_columns p) (db w)
        = Inr dc"
    by blast
  with create_patient_audit [of w p _ _ dc]
  have "after_commit w dc (snd (create_patient w p)) ''CREATE'' ''Patient'' (pt_id p)"
    by blast
  from after_commit_no_orphans [OF this insert_patient_no_orphans [OF dc(3) assms]]
  show ?thesis .
qed


lemma update_patient_no_orphans:
  assumes "no_orphans (db w)"
  shows "no_orphans (db (snd (update_patient w pid p)))"
proof (cases "fst (update_patient w pid p)")
  case (Inl e)
  with update_patient_audit [of w pid p e] assms show ?thesis by simp
next
  case (Inr y)
  with update_patient_audit [of w pid p _ y] obtain dc where
    dc: "db_reachable w" "select_patient (db w) pid \<noteq> None"
      "update_patients (current_timestamp w) (patient_columns p) pid (db w) = Inr dc"
    by blast
  with update_patient_audit [of w pid p _ _ dc]
  have "after_commit w dc (snd (update_patient w pid p)) ''PUT'' ''Patient'' pid"
    by blast
  from after_commit_no_orphans [OF this
      update_patients_no_orphans [OF dc(3) patient_columns_columns assms]]
  show ?thesis .
qed

lemma patch_patient_no_orphans:
  assumes "no_orphans (db w)"
  shows "no_orphans (db (snd (patch_patient w pid u)))"
proof (cases "fst (patch_patient w pid u)")
  case (Inl e)
  with patch_patient_audit [of w pid u e] assms show ?thesis by simp
next
  case (Inr y)
  with patch_patient_audit [of w pid u _ y] obtain dc where
    dc: "db_reachable w" "select_patient (db w) pid \<noteq> None" "update_fields u \<noteq> []"
      "update_patients (current_timestamp w) (update_fields u) pid (db w) = Inr dc"
    by blast
  with patch_patient_audit [of w pid u _ _ dc]
  have "after_commit w dc (snd (patch_patient w pid u)) ''PATCH'' ''Patient'' pid"
    by blast
  from after_commit_no_orphans [OF this
      update_patients_no_orphans [OF dc(4) update_fields_columns assms]]
  show ?thesis .
qed

lemma delete_patient_Inr:
  assumes "fst (delete_patient w pid) = Inr y"
  shows "after_commit w (delete_patients pid (db w)) (snd (delete_patient w pid))
           ''DELETE'' ''Patient'' pid"
proof -
  from assms delete_patient_audit [of w pid _ y]
  have "db_reachable w" "select_patient (db w) pid \<noteq> None" by blast+
  with delete_patient_audit [of w pid _ _ "delete_patients pid (db w)"]
  show ?thesis by blast
qed

lemma delete_patient_no_orphans:
  assumes "no_orphans (db w)"
  shows "no_orphans (db (snd (delete_patient w pid)))"
proof (cases "fst (delete_patient w pid)")
  case (Inl e)
  with delete_patient_audit [of w pid e] assms show ?thesis by simp
next
  case (Inr y)
  from after_commit_no_orphans [OF delete_patient_Inr [OF Inr]
      delete_patients_no_orphans [OF assms]]
  show ?thesis .
qed

lemma create_observation_no_orphans:
  assumes "no_orphans (db w)"
  shows "no_orphans (db (snd (create_observation w ob)))"
proof (cases "fst (create_observation w ob)")
  case (Inl e)
  with create_observation_audit [of w ob e] assms show ?thesis by simp
next
  case (Inr y)
  with create_observation_audit [of w ob _ y] obtain dc where
    dc: "db_reachable w" "select_patient (db w) (ob_patient_id ob) \<noteq> None"
      "insert_observation (current_timestamp w) (uuid4 w) (ob_patient_id ob) (ob_category ob)
          (ob_code ob) (ob_display ob) (ob_value ob) (ob_unit ob) (ob_date ob) (db w) = Inr dc"
    by blast
  with create_observation_audit [of w ob _ _ dc]
  have "after_commit w dc (snd (create_observation w ob)) ''CREATE'' ''Observation'' (uuid4 w)"
    by blast
  from after_commit_no_orphans [OF this insert_observation_no_orphans [OF dc(3) assms]]
  show ?thesis .
qed

lemma reachable_no_orphans: "reachable d \<Longrightarrow> no_orphans d"
proof (induction rule: reachable.induct)
  case init
  show ?case by (simp add: no_orphans_def initialize_db_def)
next
  case (search w name)
  then show ?case by (simp add: search_patients_db)
next
  case (create w patient)
  then show ?case by (simp add: create_patient_no_orphans)
next
  case (put w patient_id patient)
  then show ?case by (simp add: update_patient_no_orphans)
next
  case (patch w patient_id updates)
  then show ?case by (simp add: patch_patient_no_orphans)
next
  case (delete w patient_id)
  then show ?case by (simp add: delete_patient_no_orphans)
next
  case (observations w patient_id)
  then show ?case by (simp add: get_observations_db)
next
  case (observe w observation)
  then show ?case by (simp add: create_observation_no_orphans)
qed

text \<open>
  Claim C9. In every reachable state of the tables each observation's \<open>patient_id\<close> is
  the id of a stored patient. \<open>create_observation\<close> succeeds only when the patient is
  stored at that time, and changes nothing when it is not. A successful
  \<open>delete_patient\<close> leaves exactly the other patients and the observations of the other
  patients, both removed by the one transaction; a failed one changes nothing.
\<close>

theorem no_orphan_observations:
  "(reachable d \<longrightarrow> no_orphans d)
   \<and> (fst (create_observation w ob) = Inr y \<longrightarrow>
        select_patient (db w) (ob_patient_id ob) \<noteq> None)
   \<and> (select_patient (db w) (ob_patient_id ob) = None \<longrightarrow>
        db (snd (create_observation w ob)) = db w)
   \<and> (fst (delete_patient w pid) = Inr z \<longrightarrow>
        patients (db (snd (delete_patient w pid)))
          = filter (\<lambda>r. p_id r \<noteq> pid) (patients (db w))
        \<and> observations (db (snd (delete_patient w pid)))
          = filter (\<lambda>ob. o_patient_id ob \<noteq> pid) (observations (db w)))
   \<and> (fst (delete_patient w pid) = Inl e \<longrightarrow> db (snd (delete_patient w pid)) = db w)"
proof (intro conjI impI)
  assume "reachable d"
  then show "no_orphans d" by (rule reachable_no_orphans)
next
  assume "fst (create_observation w ob) = Inr y"
  with create_observation_audit [of w ob _ y]
  show "select_patient (db w) (ob_patient_id ob) \<noteq> None" by blast
next
  assume "select_patient (db w) (ob_patient_id ob) = None"
  from create_observation_missing [OF this] show "db (snd (create_observation w ob)) = db w"
    by auto
next
  assume "fst (delete_patient w pid) = Inr z"
  from delete_patient_Inr [OF this]
  show "patients (db (snd (delete_patient w pid)))
          = filter (\<lambda>r. p_id r \<noteq> pid) (patients (db w))"
    and "observations (db (snd (delete_patient w pid)))
          = filter (\<lambda>ob. o_patient_id ob \<noteq> pid) (observations (db w))"
    by (simp_all add: after_commit_def delete_patients_def)
next
  assume "fst (delete_patient w pid) = Inl e"
  with delete_patient_audit [of w pid e] show "db (snd (delete_patient w pid)) = db w"
    by blast
qed

lemmas observe_eval = sample_defs create_observation_def insert_observation_def sql_then_def
  varchar_def iso_eval log_event_def insert_log_def stored_row_def stored_observation_def
  one_patient_def one_observation_def

theorem no_orphan_observations_witness:
  "reachable one_observation \<and> no_orphans one_observation
   \<and> create_observation (sample_world one_patient) sample_observation
       = (Inr (''Observaci'' @ [CHR 0xF3] @ ''n registrada correctamente'',
               ''3f2b8c1e-0d4a-4c5e-9b7a-6a1f2e3d4c5b''),
          sample_world one_observation)
   \<and> select_patient (db (sample_world one_patient)) (ob_patient_id sample_observation) \<noteq> None
   \<and> select_patient (db (sample_world (initialize_db iso_date_in))) (ob_patient_id sample_observation) = None
   \<and> db (snd (create_observation (sample_world (initialize_db iso_date_in)) sample_observation))
       = initialize_db iso_date_in
   \<and> fst (delete_patient (sample_world one_observation) ''p1'')
       = Inr (''Paciente '' @ quoted ''p1'' @ '' eliminado'', 1)
   \<and> patients (db (snd (delete_patient (sample_world one_observation) ''p1''))) = []
   \<and> observations (db (snd (delete_patient (sample_world one_observation) ''p1''))) = []"
proof -
  have "reachable (db (sample_world (initialize_db iso_date_in)
          \<lparr>connect_faults := [False, True]\<rparr>))"
    by (simp add: sample_world_def reachable.init)
  from reachable.create [OF this, of sample_patient]
  have r1: "reachable (db (sample_world one_patient))"
    by (simp add: create_eval one_patient_def stored_row_def)
  have 2: "create_observation (sample_world one_patient) sample_observation
       = (Inr (''Observaci'' @ [CHR 0xF3] @ ''n registrada correctamente'',
               ''3f2b8c1e-0d4a-4c5e-9b7a-6a1f2e3d4c5b''),
          sample_world one_observation)"
    by (simp add: observe_eval)
  from reachable.observe [OF r1, of sample_observation]
  have r2: "reachable one_observation"
    by (simp add: 2) (simp add: sample_world_def)
  have 3: "fst (delete_patient (sample_world one_observation) ''p1'')
       = Inr (''Paciente '' @ quoted ''p1'' @ '' eliminado'', 1)"
    by (simp add: observe_eval delete_patient_def delete_patients_def)
  have 4: "select_patient (db (sample_world one_patient)) (ob_patient_id sample_observation) \<noteq> None"
    "select_patient (db (sample_world (initialize_db iso_date_in))) (ob_patient_id sample_observation) = None"
    by (simp_all add: observe_eval)
  note t = no_orphan_observations [where d = one_observation
      and w = "sample_world (initialize_db iso_date_in)" and ob = sample_observation]
  note u = no_orphan_observations [where w = "sample_world one_observation" and pid = "''p1''"
      and z = "(''Paciente '' @ quoted ''p1'' @ '' eliminado'', 1)"]
  show ?thesis
    using t u r2 2 3 4
    by (simp add: sample_world_def one_observation_def stored_observation_def stored_row_def
        sample_row_def)
qed

subsection \<open>Validation of the birth date\<close>

lemma date_le_total: "\<not> date_lt a b \<longleftrightarrow> date_le b a"
  by (auto simp: date_lt_def date_le_def split: prod.splits)

lemma validate_birthdate_cases:
  "Patient_validate_birthdate parse t v =
     (case parse v of
        Inl m \<Rightarrow> Inl (''Fecha inv'' @ [CHR 0xE1] @ ''lida: '' @ m)
      | Inr d \<Rightarrow>
          if date_lt t d then
            Inl (''Fecha inv'' @ [CHR 0xE1] @ ''lida: '' @ ''Fecha de nacimiento no puede ser futura'')
          else if date_lt d (1900, 1, 1) then
            Inl (''Fecha inv'' @ [CHR 0xE1] @ ''lida: '' @ ''Fecha de nacimiento inv'' @ [CHR 0xE1] @ ''lida'')
          else Inr v)"
  by (simp add: Patient_validate_birthdate_def split: sum.splits)

text \<open>The sample runtime reads every ISO calendar date, as every release does.\<close>

lemma is_digit_val: "is_digit c \<Longrightarrow> \<exists>k. digit_val c = Some k"
  by (auto simp: is_digit_def digit_val_def)

lemma digits_val_foldl:
  assumes "list_all is_digit s"
  shows "digits_val acc s
    = Some (foldl (\<lambda>n c. 10 * n + (case digit_val c of None \<Rightarrow> 0 | Some k \<Rightarrow> k)) acc s)"
  using assms
proof (induction s arbitrary: acc)
  case Nil
  then show ?case by simp
next
  case (Cons c s)
  then obtain k where "digit_val c = Some k" using is_digit_val [of c] by auto
  with Cons show ?case by simp
qed

lemma number_decimal:
  assumes "list_all is_digit s" "s \<noteq> []"
  shows "number s = Some (decimal s)"
  using assms by (simp add: number_def decimal_def digits_val_foldl)

lemma py37_reads_calendar_date:
  assumes "iso_calendar_date s = Some d" "1 \<le> fst d"
  shows "fromisoformat_py37 s = Inr d"
proof -
  let ?y = "take 4 s" and ?m = "take 2 (drop 5 s)" and ?d = "drop 8 s"
  from assms(1) have l: "length s = 10" and h: "s ! 4 = CHR ''-''" "s ! 7 = CHR ''-''"
    and dg: "list_all is_digit ?y" "list_all is_digit ?m" "list_all is_digit ?d"
    and rg: "1 \<le> decimal ?m" "decimal ?m \<le> 12" "1 \<le> decimal ?d"
      "decimal ?d \<le> days_in_month (decimal ?y) (decimal ?m)"
    and d: "d = (decimal ?y, decimal ?m, decimal ?d)"
    by (auto simp: iso_calendar_date_def split: if_splits)
  from l have ne: "?y \<noteq> []" "?m \<noteq> []" "?d \<noteq> []" by auto
  have n: "number ?y = Some (decimal ?y)" "number ?m = Some (decimal ?m)"
    "number ?d = Some (decimal ?d)"
    using dg ne by (simp_all add: number_decimal)
  have p: "parse_isoformat_date (take 10 s) = Some (decimal ?y, decimal ?m, decimal ?d)"
    using l h n by (simp add: parse_isoformat_date_def)
  from assms(2) d have y: "1 \<le> decimal ?y" by simp
  show ?thesis
    using p l rg y d by (simp add: fromisoformat_py37_def)
qed

lemma py37_reads_calendar_dates: "reads_calendar_dates fromisoformat_py37"
  unfolding reads_calendar_dates_def
proof
  fix s
  show "case iso_calendar_date s of
          None \<Rightarrow> True
        | Some d \<Rightarrow> if fst d < 1 then True else fromisoformat_py37 s = Inr d"
    using py37_reads_calendar_date [of s] by (auto split: option.splits)
qed

lemma reads_calendar_date:
  assumes "reads_calendar_dates parse" "iso_calendar_date s = Some d" "1 \<le> fst d"
  shows "parse s = Inr d"
proof -
  from assms(1) have "case iso_calendar_date s of
          None \<Rightarrow> True
        | Some d \<Rightarrow> if fst d < 1 then True else parse s = Inr d"
    unfolding reads_calendar_dates_def by blast
  with assms(2,3) show ?thesis by simp
qed

lemma py37_message:
  assumes "fromisoformat_py37 v = Inl m"
  shows "m \<noteq> ''Fecha de nacimiento no puede ser futura''
    \<and> m \<noteq> ''Fecha de nacimiento inv'' @ [CHR 0xE1] @ ''lida''"
  using assms
  by (auto simp: fromisoformat_py37_def invalid_isoformat_def
      split: option.splits if_splits prod.splits)

lemmas calendar_eval = iso_calendar_date_def is_digit_def decimal_def digit_val_def
  days_in_month_def is_leap_def date_lt_def date_le_def

lemmas birthdate_eval = validate_birthdate_cases iso_eval date_lt_def date_le_def
  invalid_isoformat_def quoted_def parse_isoformat_time_def tz_pos_def parse_hh_mm_ss_ff_def

text \<open>
  Claim C4, as stated, fails: the validator also accepts a date followed by a time of
  day, which is not an ISO calendar date; the runtime's parser reads it (that of Python
  3.7, and every later one) and \<open>.date()\<close> drops the time.
\<close>

theorem birthdate_counterexample:
  "Patient_validate_birthdate fromisoformat_py37 (2024, 6, 15) ''2020-01-01T10:00:00''
     = Inr ''2020-01-01T10:00:00''
   \<and> iso_calendar_date ''2020-01-01T10:00:00'' = None"
  by (simp add: birthdate_eval)

text \<open>
  Claim C4, amended. Whatever the runtime's parser is, full-payload validation accepts
  a \<open>birthDate\<close>, and returns it unchanged, exactly when the parser reads the string and
  the date of the result lies in [1900-01-01, today]. A string the parser rejects is
  refused with the parser's message behind the validator's prefix, which differs from
  both range errors unless the parser's message is itself one of the two range
  messages; a date after today is refused with the first range error, a date before
  1900-01-01 with the second. For a parser that reads the ISO calendar dates, as every
  release of the runtime does, an ISO calendar date is accepted exactly when it lies in
  [1900-01-01, today]; with today = 2024-06-15, 1899-12-31 and 2024-06-16 are refused,
  1900-01-01 and 2024-06-15 are accepted. The parser of Python 3.7 refuses 13/13/2020
  as an invalid ISO string, and none of its messages is one of the two range messages.
\<close>

theorem birthdate_accepted_iff:
  "(Patient_validate_birthdate parse t v = Inr x \<longleftrightarrow>
      x = v \<and> (\<exists>d. parse v = Inr d \<and> date_le (1900, 1, 1) d \<and> date_le d t))
   \<and> (parse v = Inl m \<longrightarrow>
        Patient_validate_birthdate parse t v = Inl (''Fecha inv'' @ [CHR 0xE1] @ ''lida: '' @ m))
   \<and> (parse v = Inl m \<and> m \<noteq> ''Fecha de nacimiento no puede ser futura''
       \<and> m \<noteq> ''Fecha de nacimiento inv'' @ [CHR 0xE1] @ ''lida'' \<longrightarrow>
        Patient_validate_birthdate parse t v \<noteq>
          Inl (''Fecha inv'' @ [CHR 0xE1] @ ''lida: '' @ ''Fecha de nacimiento no puede ser futura'')
        \<and> Patient_validate_birthdate parse t v \<noteq>
          Inl (''Fecha inv'' @ [CHR 0xE1] @ ''lida: '' @ ''Fecha de nacimiento inv''
                 @ [CHR 0xE1] @ ''lida''))
   \<and> (parse v = Inr d \<and> date_lt t d \<longrightarrow>
        Patient_validate_birthdate parse t v =
          Inl (''Fecha inv'' @ [CHR 0xE1] @ ''lida: '' @ ''Fecha de nacimiento no puede ser futura''))
   \<and> (parse v = Inr d \<and> date_le d t
   \<and> date_lt d (1900, 1, 1) \<longrightarrow>
        Patient_validate_birthdate parse t v =
          Inl (''Fecha inv'' @ [CHR 0xE1] @ ''lida: '' @ ''Fecha de nacimiento inv''
                 @ [CHR 0xE1] @ ''lida''))
   \<and> (reads_calendar_dates parse \<longrightarrow>
        (iso_calendar_date v = Some d \<and> 1 \<le> fst d \<longrightarrow>
           (Patient_validate_birthdate parse t v = Inr v
              \<longleftrightarrow> date_le (1900, 1, 1) d \<and> date_le d t))
        \<and> Patient_validate_birthdate parse (2024, 6, 15) ''1899-12-31'' =
            Inl (''Fecha inv'' @ [CHR 0xE1] @ ''lida: '' @ ''Fecha de nacimiento inv''
                   @ [CHR 0xE1] @ ''lida'')
        \<and> Patient_validate_birthdate parse (2024, 6, 15) ''2024-06-16'' =
            Inl (''Fecha inv'' @ [CHR 0xE1] @ ''lida: ''
                   @ ''Fecha de nacimiento no puede ser futura'')
        \<and> Patient_validate_birthdate parse (2024, 6, 15) ''1900-01-01'' = Inr ''1900-01-01''
        \<and> Patient_validate_birthdate parse (2024, 6, 15) ''2024-06-15'' = Inr ''2024-06-15'')
   \<and> Patient_validate_birthdate fromisoformat_py37 (2024, 6, 15) ''13/13/2020'' =
        Inl (''Fecha inv'' @ [CHR 0xE1] @ ''lida: '' @ invalid_isoformat ''13/13/2020'')
   \<and> (fromisoformat_py37 v = Inl m \<longrightarrow>
        m \<noteq> ''Fecha de nacimiento no puede ser futura''
        \<and> m \<noteq> ''Fecha de nacimiento inv'' @ [CHR 0xE1] @ ''lida'')"
proof (intro conjI impI)
  show "Patient_validate_birthdate parse t v = Inr x \<longleftrightarrow>
      x = v \<and> (\<exists>d. parse v = Inr d \<and> date_le (1900, 1, 1) d \<and> date_le d t)"
    by (auto simp: validate_birthdate_cases date_le_total [symmetric] split: sum.splits)
next
  assume "parse v = Inl m"
  then show "Patient_validate_birthdate parse t v = Inl (''Fecha inv'' @ [CHR 0xE1] @ ''lida: '' @ m)"
    by (simp add: validate_birthdate_cases)
next
  assume a: "parse v = Inl m \<and> m \<noteq> ''Fecha de nacimiento no puede ser futura''
       \<and> m \<noteq> ''Fecha de nacimiento inv'' @ [CHR 0xE1] @ ''lida''"
  then show "Patient_validate_birthdate parse t v \<noteq>
          Inl (''Fecha inv'' @ [CHR 0xE1] @ ''lida: '' @ ''Fecha de nacimiento no puede ser futura'')"
    by (simp add: validate_birthdate_cases)
  from a show "Patient_validate_birthdate parse t v \<noteq>
          Inl (''Fecha inv'' @ [CHR 0xE1] @ ''lida: '' @ ''Fecha de nacimiento inv''
                 @ [CHR 0xE1] @ ''lida'')"
    by (simp add: validate_birthdate_cases)
next
  assume "parse v = Inr d \<and> date_lt t d"
  then show "Patient_validate_birthdate parse t v =
          Inl (''Fecha inv'' @ [CHR 0xE1] @ ''lida: '' @ ''Fecha de nacimiento no puede ser futura'')"
    by (simp add: validate_birthdate_cases)
next
  assume "parse v = Inr d \<and> date_le d t \<and> date_lt d (1900, 1, 1)"
  then show "Patient_validate_birthdate parse t v =
          Inl (''Fecha inv'' @ [CHR 0xE1] @ ''lida: '' @ ''Fecha de nacimiento inv''
                 @ [CHR 0xE1] @ ''lida'')"
    by (simp add: validate_birthdate_cases date_le_total [symmetric])
next
  assume r: "reads_calendar_dates parse"
  have c: "iso_calendar_date ''1899-12-31'' = Some (1899, 12, 31)"
    "iso_calendar_date ''2024-06-16'' = Some (2024, 6, 16)"
    "iso_calendar_date ''1900-01-01'' = Some (1900, 1, 1)"
    "iso_calendar_date ''2024-06-15'' = Some (2024, 6, 15)"
    by (simp_all add: calendar_eval)
  have p: "parse ''1899-12-31'' = Inr (1899, 12, 31)"
    "parse ''2024-06-16'' = Inr (2024, 6, 16)"
    "parse ''1900-01-01'' = Inr (1900, 1, 1)"
    "parse ''2024-06-15'' = Inr (2024, 6, 15)"
    using c by (simp_all add: reads_calendar_date [OF r])
  show "Patient_validate_birthdate parse (2024, 6, 15) ''1899-12-31'' =
            Inl (''Fecha inv'' @ [CHR 0xE1] @ ''lida: '' @ ''Fecha de nacimiento inv''
                   @ [CHR 0xE1] @ ''lida'')"
    by (simp add: validate_birthdate_cases p date_lt_def date_le_def)
  show "Patient_validate_birthdate parse (2024, 6, 15) ''2024-06-16'' =
            Inl (''Fecha inv'' @ [CHR 0xE1] @ ''lida: ''
                   @ ''Fecha de nacimiento no puede ser futura'')"
    by (simp add: validate_birthdate_cases p date_lt_def date_le_def)
  show "Patient_validate_birthdate parse (2024, 6, 15) ''1900-01-01'' = Inr ''1900-01-01''"
    by (simp add: validate_birthdate_cases p date_lt_def date_le_def)
  show "Patient_validate_birthdate parse (2024, 6, 15) ''2024-06-15'' = Inr ''2024-06-15''"
    by (simp add: validate_birthdate_cases p date_lt_def date_le_def)
  assume "iso_calendar_date v = Some d \<and> 1 \<le> fst d"
  then have "parse v = Inr d" using reads_calendar_date [OF r] by blast
  then show "Patient_validate_birthdate parse t v = Inr v
              \<longleftrightarrow> date_le (1900, 1, 1) d \<and> date_le d t"
    by (auto simp: validate_birthdate_cases date_le_total [symmetric])
next
  show "Patient_validate_birthdate fromisoformat_py37 (2024, 6, 15) ''13/13/2020'' =
        Inl (''Fecha inv'' @ [CHR 0xE1] @ ''lida: '' @ invalid_isoformat ''13/13/2020'')"
    by (simp add: birthdate_eval)
next
  assume a: "fromisoformat_py37 v = Inl m"
  from py37_message [OF a]
  show "m \<noteq> ''Fecha de nacimiento no puede ser futura''"
    and "m \<noteq> ''Fecha de nacimiento inv'' @ [CHR 0xE1] @ ''lida''"
    by simp_all
qed

theorem birthdate_accepted_iff_witness:
  "reads_calendar_dates fromisoformat_py37
   \<and> iso_calendar_date ''1980-05-17'' = Some (1980, 5, 17)
   \<and> fromisoformat_py37 ''1980-05-17'' = Inr (1980, 5, 17)
   \<and> Patient_validate_birthdate fromisoformat_py37 (2024, 6, 15) ''1980-05-17''
        = Inr ''1980-05-17''
   \<and> fromisoformat_py37 ''13/13/2020'' = Inl (invalid_isoformat ''13/13/2020'')
   \<and> invalid_isoformat ''13/13/2020'' \<noteq> ''Fecha de nacimiento no puede ser futura''
   \<and> invalid_isoformat ''13/13/2020'' \<noteq> ''Fecha de nacimiento inv'' @ [CHR 0xE1] @ ''lida''
   \<and> Patient_validate_birthdate fromisoformat_py37 (2024, 6, 15) ''13/13/2020''
        \<noteq> Inl (''Fecha inv'' @ [CHR 0xE1] @ ''lida: ''
                 @ ''Fecha de nacimiento no puede ser futura'')
   \<and> fromisoformat_py37 ''2024-06-16'' = Inr (2024, 6, 16)
   \<and> date_lt (2024, 6, 15) (2024, 6, 16)
   \<and> Patient_validate_birthdate fromisoformat_py37 (2024, 6, 15) ''2024-06-16''
        = Inl (''Fecha inv'' @ [CHR 0xE1] @ ''lida: ''
                 @ ''Fecha de nacimiento no puede ser futura'')
   \<and> fromisoformat_py37 ''1899-12-31'' = Inr (1899, 12, 31)
   \<and> date_le (1899, 12, 31) (2024, 6, 15) \<and> date_lt (1899, 12, 31) (1900, 1, 1)
   \<and> Patient_validate_birthdate fromisoformat_py37 (2024, 6, 15) ''1899-12-31''
        = Inl (''Fecha inv'' @ [CHR 0xE1] @ ''lida: '' @ ''Fecha de nacimiento inv''
                 @ [CHR 0xE1] @ ''lida'')"
proof -
  note r = py37_reads_calendar_dates
  have c: "iso_calendar_date ''1980-05-17'' = Some (1980, 5, 17)"
    by (simp add: calendar_eval)
  have p: "fromisoformat_py37 ''1980-05-17'' = Inr (1980, 5, 17)"
    "fromisoformat_py37 ''13/13/2020'' = Inl (invalid_isoformat ''13/13/2020'')"
    "fromisoformat_py37 ''2024-06-16'' = Inr (2024, 6, 16)"
    "fromisoformat_py37 ''1899-12-31'' = Inr (1899, 12, 31)"
    by (simp_all add: birthdate_eval)
  have m: "invalid_isoformat ''13/13/2020'' \<noteq> ''Fecha de nacimiento no puede ser futura''"
    "invalid_isoformat ''13/13/2020'' \<noteq> ''Fecha de nacimiento inv'' @ [CHR 0xE1] @ ''lida''"
    by (simp_all add: invalid_isoformat_def)
  have o: "date_lt (2024, 6, 15) (2024, 6, 16)" "date_le (1899, 12, 31) (2024, 6, 15)"
    "date_lt (1899, 12, 31) (1900, 1, 1)" "date_le (1900, 1, 1) (1980, 5, 17)"
    "date_le (1980, 5, 17) (2024, 6, 15)"
    by (simp_all add: date_lt_def date_le_def)
  note a = birthdate_accepted_iff [of fromisoformat_py37 "(2024, 6, 15)" "''1980-05-17''"
      "''1980-05-17''" "invalid_isoformat ''13/13/2020''" "(1980, 5, 17)"]
  note b = birthdate_accepted_iff [of fromisoformat_py37 "(2024, 6, 15)" "''13/13/2020''"
      "''13/13/2020''" "invalid_isoformat ''13/13/2020''" "(1980, 5, 17)"]
  note f = birthdate_accepted_iff [of fromisoformat_py37 "(2024, 6, 15)" "''2024-06-16''"
      "''2024-06-16''" "invalid_isoformat ''13/13/2020''" "(2024, 6, 16)"]
  note l = birthdate_accepted_iff [of fromisoformat_py37 "(2024, 6, 15)" "''1899-12-31''"
      "''1899-12-31''" "invalid_isoformat ''13/13/2020''" "(1899, 12, 31)"]
  show ?thesis
    using a b f l r c p m o by simp
qed

subsection \<open>Validation of a partial payload\<close>

lemmas request_eval = patch_eval PATCH_Patient_def PatientUpdate_errors_def
  PatientUpdate_validate_gender_def Patient_validate_gender_def field_errors_def
  future_birth_def malformed_birth_def empty_gender_def birthdate_eval

text \<open>
  Claim C5 (the code departs from it). \<open>PatientUpdate\<close> has no validator for
  \<open>birthDate\<close>, and its gender validator lets the empty string through. A patch body
  with the birth date 2999-01-01, which the full payload refuses as a future date, passes
  validation and is written to the patient's row; a malformed birth date and an empty
  gender pass validation too, reach the \<open>UPDATE\<close> and end as status 500.
\<close>

theorem partial_payload_not_validated:
  "PatientUpdate_errors future_birth = []
   \<and> Patient_validate_birthdate (fromisoformat (sample_world sample_db))
         (today (sample_world sample_db)) ''2999-01-01''
       = Inl (''Fecha inv'' @ [CHR 0xE1] @ ''lida: '' @ ''Fecha de nacimiento no puede ser futura'')
   \<and> PATCH_Patient (sample_world sample_db) ''p1'' future_birth =
       (Inr ''Paciente actualizado parcialmente'',
        sample_world
          \<lparr>patients = [sample_row\<lparr>p_birth_date := (2999, 1, 1), p_updated_at := 20\<rparr>],
           observations = [],
           logs = [\<lparr>l_id = 1, l_timestamp = 21, l_action = ''PATCH'',
                    l_resource = ''Patient'', l_resource_id = ''p1''\<rparr>],
           logs_id_seq = 1, date_in = iso_date_in\<rparr>)
   \<and> PatientUpdate_errors malformed_birth = []
   \<and> response_status (fst (PATCH_Patient (sample_world sample_db) ''p1'' malformed_birth)) = 500
   \<and> PatientUpdate_errors empty_gender = []
   \<and> Patient_validate_gender [] = Inl gender_message
   \<and> response_status (fst (PATCH_Patient (sample_world sample_db) ''p1'' empty_gender)) = 500"
  by (simp add: request_eval)

subsection \<open>Search by name\<close>

lemma like_plain_prefix:
  assumes "plain s"
  shows "like (s @ p) t \<longleftrightarrow> take (length s) t = s
    \<and> like p (drop (length s) t)"
  using assms
proof (induction s arbitrary: t)
  case Nil
  then show ?case by simp
next
  case (Cons c s)
  then have c: "c \<noteq> CHR ''%''" "c \<noteq> CHR ''_''" "c \<noteq> CHR 0x5C" and s: "plain s"
    by (simp_all add: plain_def)
  show ?case
  proof (cases t)
    case Nil
    with c show ?thesis by simp
  next
    case (Cons x t')
    with c Cons.IH [OF s, of t'] show ?thesis by auto
  qed
qed

lemma like_percent: "like ''%'' t"
  by (induction t) simp_all

lemma like_percent_any:
  "like (CHR ''%'' # p) t \<longleftrightarrow> (\<exists>i \<le> length t. like p (drop i t))"
proof (induction t)
  case Nil
  then show ?case by simp
next
  case (Cons x t)
  have "(\<exists>i \<le> length (x # t). like p (drop i (x # t)))
      \<longleftrightarrow> like p (x # t) \<or> (\<exists>i \<le> length t. like p (drop i t))"
  proof
    assume "\<exists>i \<le> length (x # t). like p (drop i (x # t))"
    then obtain i where i: "i \<le> length (x # t)" "like p (drop i (x # t))" by blast
    show "like p (x # t) \<or> (\<exists>i \<le> length t. like p (drop i t))"
    proof (cases i)
      case 0
      with i show ?thesis by simp
    next
      case (Suc j)
      with i show ?thesis by auto
    qed
  next
    assume "like p (x # t) \<or> (\<exists>i \<le> length t. like p (drop i t))"
    then show "\<exists>i \<le> length (x # t). like p (drop i (x # t))"
    proof
      assume "like p (x # t)"
      then have "like p (drop 0 (x # t))" by simp
      then show ?thesis by blast
    next
      assume "\<exists>i \<le> length t. like p (drop i t)"
      then obtain i where "i \<le> length t" "like p (drop i t)" by blast
      then have "Suc i \<le> length (x # t)" "like p (drop (Suc i) (x # t))" by simp_all
      then show ?thesis by blast
    qed
  qed
  with Cons.IH show ?case by simp
qed

lemma contains_iff: "contains s t \<longleftrightarrow> (\<exists>i \<le> length t. take (length s) (drop i t) = s)"
proof (induction t)
  case Nil
  then show ?case by auto
next
  case (Cons x t)
  have "(\<exists>i \<le> length (x # t). take (length s) (drop i (x # t)) = s)
      \<longleftrightarrow> take (length s) (x # t) = s \<or> (\<exists>i \<le> length t. take (length s) (drop i t) = s)"
  proof
    assume "\<exists>i \<le> length (x # t). take (length s) (drop i (x # t)) = s"
    then obtain i where i: "i \<le> length (x # t)" "take (length s) (drop i (x # t)) = s" by blast
    show "take (length s) (x # t) = s \<or> (\<exists>i \<le> length t. take (length s) (drop i t) = s)"
    proof (cases i)
      case 0
      with i show ?thesis by simp
    next
      case (Suc j)
      with i show ?thesis by auto
    qed
  next
    assume "take (length s) (x # t) = s \<or> (\<exists>i \<le> length t. take (length s) (drop i t) = s)"
    then show "\<exists>i \<le> length (x # t). take (length s) (drop i (x # t)) = s"
    proof
      assume "take (length s) (x # t) = s"
      then have "take (length s) (drop 0 (x # t)) = s" by simp
      then show ?thesis by blast
    next
      assume "\<exists>i \<le> length t. take (length s) (drop i t) = s"
      then obtain i where "i \<le> length t" "take (length s) (drop i t) = s" by blast
      then have "Suc i \<le> length (x # t)" "take (length s) (drop (Suc i) (x # t)) = s"
        by simp_all
      then show ?thesis by blast
    qed
  qed
  with Cons.IH show ?case by simp
qed

lemma like_substring:
  assumes "plain s"
  shows "like (CHR ''%'' # s @ ''%'') t \<longleftrightarrow> contains s t"
proof -
  have "like (CHR ''%'' # s @ ''%'') t \<longleftrightarrow> (\<exists>i \<le> length t. like (s @ ''%'') (drop i t))"
    by (rule like_percent_any)
  also have "\<dots> \<longleftrightarrow> (\<exists>i \<le> length t. take (length s) (drop i t) = s)"
    using like_plain_prefix [OF assms, of "''%''"] like_percent by (simp del: like.simps)
  finally show ?thesis by (simp add: contains_iff)
qed

lemma plain_lower: "plain (lower s) = plain s"
proof -
  have "lower_char c = CHR ''%'' \<longleftrightarrow> c = CHR ''%''"
    "lower_char c = CHR ''_'' \<longleftrightarrow> c = CHR ''_''"
    "lower_char c = CHR 0x5C \<longleftrightarrow> c = CHR 0x5C" for c
    by (auto simp: lower_char_def capital_letters_def small_letters_def
        split: option.splits if_splits)
  then show ?thesis by (simp add: plain_def lower_def list_all_iff)
qed

lemma search_rows_plain:
  assumes "plain name"
  shows "search_rows name rows =
     order_by by_family_given
       (filter (\<lambda>r. contains (lower name) (lower (p_family_name r))
                   \<or> contains (lower name) (lower (p_given_name r))) rows)"
  using assms by (simp add: search_rows_def like_substring plain_lower del: like.simps)

lemmas search_eval = sample_defs search_patients_def search_rows_def order_by_def view_def
  lower_def lower_char_def capital_letters_def small_letters_def by_family_given_def

text \<open>
  Claim C8 (the code departs from it). The search string is placed in the \<open>LIKE\<close>
  pattern as it is, so its \<open>%\<close> and \<open>_\<close> are read as wildcards: the searches for
  \<open>_\<close> and for \<open>s%h\<close> both return the patient John Smith, whose names contain neither
  string. (For a string without \<open>%\<close>, \<open>_\<close> and backslash the filter is the
  case-insensitive substring test, by \<open>search_rows_plain\<close>; \<open>SMITH\<close> and \<open>smith\<close> give the
  same result.)
\<close>

theorem search_reads_wildcards:
  "search_patients (sample_world sample_db) ''_'' = (Inr [view sample_row], sample_world sample_db)
   \<and> \<not> contains (lower ''_'') (lower ''Smith'')
   \<and> \<not> contains (lower ''_'') (lower ''John'')
   \<and> search_patients (sample_world sample_db) ''s%h'' =
       (Inr [view sample_row], sample_world sample_db)
   \<and> \<not> contains (lower ''s%h'') (lower ''Smith'')
   \<and> \<not> contains (lower ''s%h'') (lower ''John'')
   \<and> search_patients (sample_world sample_db) ''SMITH'' =
       (Inr [view sample_row], sample_world sample_db)
   \<and> search_patients (sample_world sample_db) ''smith'' =
       (Inr [view sample_row], sample_world sample_db)
   \<and> search_patients (sample_world sample_db) ''xyz'' = (Inr [], sample_world sample_db)"
  by (simp add: search_eval)

end
